theory Spec2Isabelle
  imports Main "HOL-Library.Multiset"
begin

section \<open>JavaScript primitives used by the services\<close>

text \<open>
  Numbers that the services handle are minute counts, Unix timestamps, application
  identifiers and millisecond clocks: all integers, modelled as \<open>int\<close>.
  A template literal \<^verbatim>\<open>${n}\<close> prints an integer in decimal, with a leading minus sign
  for a negative one.
\<close>

definition digit_char :: "nat \<Rightarrow> char" where
  "digit_char d = ''0123456789'' ! d"

fun show_nat :: "nat \<Rightarrow> string" where
  "show_nat n = (if n < 10 then [digit_char n] else show_nat (n div 10) @ [digit_char (n mod 10)])"

declare show_nat.simps [simp del]

definition show_int :: "int \<Rightarrow> string" where
  "show_int i = (if i < 0 then CHR ''-'' # show_nat (nat (- i)) else show_nat (nat i))"

text \<open>Reading a digit string back, to state that \<open>show_nat\<close> prints the decimal numeral.\<close>

definition digits_value :: "string \<Rightarrow> nat" where
  "digits_value s = foldl (\<lambda>acc c. 10 * acc + (of_char c - 48)) 0 s"

text \<open>
  The remainder operator \<^verbatim>\<open>%\<close> truncates towards zero: its result has the sign of the
  dividend. \<^verbatim>\<open>Math.floor(a / b)\<close> for a positive \<open>b\<close> is \<open>a div b\<close>.
\<close>

definition js_rem :: "int \<Rightarrow> int \<Rightarrow> int" where
  "js_rem a b = sgn a * (\<bar>a\<bar> mod \<bar>b\<bar>)"

text \<open>
  \<^verbatim>\<open>Math.round(m / 60)\<close> rounds to the nearest integer, a half towards plus infinity.
\<close>

definition round_div60 :: "int \<Rightarrow> int" where
  "round_div60 m = (m + 30) div 60"

text \<open>
  Truthiness of a nullable number and of a nullable string, as \<^verbatim>\<open>&&\<close>, \<^verbatim>\<open>||\<close>, \<^verbatim>\<open>!\<close> and
  the conditional operator read them: \<^verbatim>\<open>null\<close>/\<^verbatim>\<open>undefined\<close> (here \<open>None\<close>), \<open>0\<close> and the
  empty string are falsy.
\<close>

fun truthy_num :: "int option \<Rightarrow> bool" where
  "truthy_num None = False"
| "truthy_num (Some n) = (n \<noteq> 0)"

fun truthy_str :: "string option \<Rightarrow> bool" where
  "truthy_str None = False"
| "truthy_str (Some s) = (s \<noteq> [])"

definition or_num :: "int option \<Rightarrow> int option \<Rightarrow> int option" where
  "or_num a b = (if truthy_num a then a else b)"

definition or_str :: "string option \<Rightarrow> string option \<Rightarrow> string option" where
  "or_str a b = (if truthy_str a then a else b)"

text \<open>
  \<^verbatim>\<open>xs.slice(0, end)\<close>: a negative \<open>end\<close> counts from the end of the array, and the
  bounds are clamped to the array.
\<close>

definition slice0 :: "int \<Rightarrow> 'a list \<Rightarrow> 'a list" where
  "slice0 e xs = (if e < 0 then take (nat (int (length xs) + e)) xs else take (nat e) xs)"

text \<open>
  \<^verbatim>\<open>xs.sort((a, b) => key(b) - key(a))\<close>: the array sort is stable, so it is the stable
  sort on the negated key.
\<close>

definition sort_desc :: "('a \<Rightarrow> int) \<Rightarrow> 'a list \<Rightarrow> 'a list" where
  "sort_desc k xs = sort_key (\<lambda>x. - k x) xs"

section \<open>SteamAmplifyService: pure helpers\<close>

subsection \<open>formatPlaytime\<close>

definition formatPlaytime :: "int \<Rightarrow> string" where
  "formatPlaytime minutes =
     (if minutes = 0 then ''0 minutes''
      else
        let hours = minutes div 60;
            remainingMinutes = js_rem minutes 60
        in if hours = 0 then
             show_int remainingMinutes @ '' minute'' @ (if remainingMinutes \<noteq> 1 then ''s'' else '''')
           else if remainingMinutes = 0 then
             show_int hours @ '' hour'' @ (if hours \<noteq> 1 then ''s'' else '''')
           else show_int hours @ ''h '' @ show_int remainingMinutes @ ''m'')"

subsection \<open>Status policy of the library sync\<close>

datatype game_status = Playing | Finished | Paused | Dropped | Planning

text \<open>
  The same statement block derives the status in \<^verbatim>\<open>syncGameLibrary\<close> (for the local
  mirror) and in \<^verbatim>\<open>storeGamesInDatabase\<close> (for the database row).
\<close>

definition derive_status :: "int \<Rightarrow> int \<Rightarrow> game_status" where
  "derive_status playtimeTotal playtimeRecent =
     (if playtimeTotal > 0 then (if playtimeRecent > 0 then Playing else Paused) else Planning)"

section \<open>SteamAmplifyService: library sync\<close>

subsection \<open>Data\<close>

text \<open>
  \<^verbatim>\<open>SteamGame\<close>, an element of the owned-games list of the relay gateway. The gateway
  can leave the identifier and the name \<^verbatim>\<open>null\<close> (the sync filters on them), and
  \<^verbatim>\<open>lastPlayed\<close> is declared nullable.
\<close>

record steam_game =
  appId :: "int option"
  name :: "string option"
  playtimeTotal :: int
  playtimeRecent :: int
  iconUrl :: string
  logoUrl :: string
  hasStats :: bool
  lastPlayed :: "int option"

text \<open>
  The object that \<^verbatim>\<open>syncGameLibrary\<close> writes, per game, into the local mirror
  \<^verbatim>\<open>gameshelf-library-entries-<userId>\<close>. Instants (\<^verbatim>\<open>toISOString()\<close> of a date) are
  modelled by their millisecond value. The fields \<^verbatim>\<open>id\<close>, \<^verbatim>\<open>notes\<close> and \<^verbatim>\<open>name\<close> of the source
  are \<open>entry_id\<close>, \<open>entry_notes\<close> and \<open>entry_name\<close> here.
\<close>

record library_entry =
  entry_id :: string
  userId :: string
  gameId :: string
  gameTitle :: "string option"
  gameCover :: string
  status :: game_status
  rating :: "int option"
  entry_notes :: string
  createdAt :: int
  updatedAt :: int
  steamPlaytimeTotal :: int
  steamPlaytimeRecent :: int
  steamLastPlayed :: "int option"
  steamSyncDate :: int
  isFromSteam :: bool
  steamAppId :: "int option"
  steamIconUrl :: string
  steamHasStats :: bool
  hoursPlayed :: int
  appid :: "int option"
  entry_name :: "string option"
  header_image :: string

text \<open>The two rows that \<^verbatim>\<open>storeGamesInDatabase\<close> asks the data gateway to create.\<close>

record game_row =
  row_id :: string
  title :: "string option"
  row_steamAppId :: "int option"
  steamName :: "string option"
  row_steamIconUrl :: string
  steamLogoUrl :: string
  row_steamHasStats :: bool
  platform :: string

record entry_row =
  row_userId :: string
  row_gameId :: string
  row_status :: game_status
  row_gameTitle :: "string option"
  row_gameCover :: string
  row_steamPlaytimeTotal :: int
  row_steamPlaytimeRecent :: int
  row_steamLastPlayed :: "int option"
  row_isFromSteam :: bool

datatype db_request = CreateGame game_row | CreateLibraryEntry entry_row

datatype sync_error = GatewayError | DataClientError

text \<open>
  What the sync reads from outside: the answer of the relay gateway (\<open>Inl\<close> when the
  GraphQL call rejects; otherwise the \<^verbatim>\<open>games\<close> field, \<open>None\<close> when it is \<^verbatim>\<open>null\<close> or not
  an array), whether the data client can be obtained, and which create requests throw.
\<close>

record sync_env =
  syncSteamLibrary :: "sync_error + steam_game list option"
  data_client :: bool
  game_create_throws :: "game_row \<Rightarrow> bool"
  entry_create_throws :: "entry_row \<Rightarrow> bool"

text \<open>
  What the sync writes: the two per-user collections of local storage (keyed here by the
  user identifier that ends their key), the create requests that the data gateway
  accepted, and the \<^verbatim>\<open>steamLibrarySynced\<close> events dispatched (user, game count).
\<close>

record sync_state =
  steam_games :: "string \<rightharpoonup> steam_game list"
  library_entries :: "string \<rightharpoonup> library_entry list"
  database :: "db_request list"
  events :: "(string \<times> nat) list"

subsection \<open>syncGameLibrary\<close>

text \<open>A nullable number in a template literal.\<close>

fun tmpl_num :: "int option \<Rightarrow> string" where
  "tmpl_num None = ''null''"
| "tmpl_num (Some n) = show_int n"

text \<open>
  \<^verbatim>\<open>steamGame.lastPlayed ? new Date(steamGame.lastPlayed * 1000).toISOString() : null\<close>
\<close>

definition last_played_instant :: "int option \<Rightarrow> int option" where
  "last_played_instant lp = (if truthy_num lp then map_option (\<lambda>t. t * 1000) lp else None)"

text \<open>\<^verbatim>\<open>game.logoUrl || game.iconUrl\<close> on strings.\<close>

definition or_string :: "string \<Rightarrow> string \<Rightarrow> string" where
  "or_string a b = (if a \<noteq> [] then a else b)"

definition valid_game :: "steam_game \<Rightarrow> bool" where
  "valid_game game = (truthy_num (appId game) \<and> truthy_str (name game))"

definition make_game_row :: "steam_game \<Rightarrow> game_row" where
  "make_game_row game =
     \<lparr> row_id = ''steam-game-'' @ tmpl_num (appId game),
       title = name game,
       row_steamAppId = appId game,
       steamName = name game,
       row_steamIconUrl = iconUrl game,
       steamLogoUrl = logoUrl game,
       row_steamHasStats = hasStats game,
       platform = ''Steam'' \<rparr>"

definition make_entry_row :: "string \<Rightarrow> steam_game \<Rightarrow> entry_row" where
  "make_entry_row uid game =
     \<lparr> row_userId = uid,
       row_gameId = ''steam-game-'' @ tmpl_num (appId game),
       row_status = derive_status (playtimeTotal game) (playtimeRecent game),
       row_gameTitle = name game,
       row_gameCover = or_string (logoUrl game) (iconUrl game),
       row_steamPlaytimeTotal = playtimeTotal game,
       row_steamPlaytimeRecent = playtimeRecent game,
       row_steamLastPlayed = last_played_instant (lastPlayed game),
       row_isFromSteam = True \<rparr>"

text \<open>
  The loop of \<^verbatim>\<open>storeGamesInDatabase\<close>: each game in its own \<^verbatim>\<open>try\<close>, so a create that
  throws skips the rest of that game only.
\<close>

fun store_games :: "sync_env \<Rightarrow> string \<Rightarrow> steam_game list \<Rightarrow> db_request list \<Rightarrow> db_request list" where
  "store_games env uid [] db = db"
| "store_games env uid (game # games) db =
     (if game_create_throws env (make_game_row game) then store_games env uid games db
      else if entry_create_throws env (make_entry_row uid game)
        then store_games env uid games (db @ [CreateGame (make_game_row game)])
        else store_games env uid games
               (db @ [CreateGame (make_game_row game), CreateLibraryEntry (make_entry_row uid game)]))"

definition storeGamesInDatabase ::
  "sync_env \<Rightarrow> string \<Rightarrow> steam_game list \<Rightarrow> db_request list \<Rightarrow> sync_error + db_request list" where
  "storeGamesInDatabase env uid games db =
     (if data_client env then Inr (store_games env uid games db) else Inl DataClientError)"

definition make_library_entry :: "int \<Rightarrow> string \<Rightarrow> steam_game \<Rightarrow> library_entry" where
  "make_library_entry now uid steamGame =
     \<lparr> entry_id = ''steam-'' @ tmpl_num (appId steamGame),
       userId = uid,
       gameId = ''steam-game-'' @ tmpl_num (appId steamGame),
       gameTitle = name steamGame,
       gameCover = logoUrl steamGame,
       status = derive_status (playtimeTotal steamGame) (playtimeRecent steamGame),
       rating = None,
       entry_notes = '''',
       createdAt = now,
       updatedAt = now,
       steamPlaytimeTotal = playtimeTotal steamGame,
       steamPlaytimeRecent = playtimeRecent steamGame,
       steamLastPlayed = last_played_instant (lastPlayed steamGame),
       steamSyncDate = now,
       isFromSteam = True,
       steamAppId = appId steamGame,
       steamIconUrl = iconUrl steamGame,
       steamHasStats = hasStats steamGame,
       hoursPlayed = round_div60 (playtimeTotal steamGame),
       appid = appId steamGame,
       entry_name = name steamGame,
       header_image = logoUrl steamGame \<rparr>"

definition write_empty :: "string \<Rightarrow> sync_state \<Rightarrow> sync_state" where
  "write_empty uid st =
     st\<lparr> steam_games := (steam_games st)(uid \<mapsto> []),
         library_entries := (library_entries st)(uid \<mapsto> []) \<rparr>"

text \<open>
  The result pairs what the call throws (\<open>None\<close> when it returns) with the state it
  leaves: the \<^verbatim>\<open>catch\<close> of \<^verbatim>\<open>syncGameLibrary\<close> rethrows, and what was written before
  the failure stays written. The clock (\<^verbatim>\<open>new Date()\<close>, and \<^verbatim>\<open>Date.now()\<close> in the catalog
  client below) is the argument \<open>now\<close>, read once per call.
\<close>

definition syncGameLibrary ::
  "sync_env \<Rightarrow> int \<Rightarrow> string \<Rightarrow> sync_state \<Rightarrow> sync_error option \<times> sync_state" where
  "syncGameLibrary env now uid st =
     (case syncSteamLibrary env of
        Inl e \<Rightarrow> (Some e, st)
      | Inr None \<Rightarrow> (None, write_empty uid st)
      | Inr (Some games) \<Rightarrow>
          (let validGames = filter valid_game games in
           if length validGames = 0 then (None, write_empty uid st)
           else
             let st1 = st\<lparr> steam_games := (steam_games st)(uid \<mapsto> validGames) \<rparr> in
             (case storeGamesInDatabase env uid validGames (database st1) of
                Inl e \<Rightarrow> (Some e, st1)
              | Inr db \<Rightarrow>
                  (None,
                   st1\<lparr> database := db,
                        library_entries :=
                          (library_entries st1)(uid \<mapsto> map (make_library_entry now uid) validGames),
                        events := events st1 @ [(uid, length validGames)] \<rparr>))))"

subsection \<open>Example data\<close>

definition example_game_a :: steam_game where
  "example_game_a = \<lparr> appId = Some 10, name = Some ''A'', playtimeTotal = 120, playtimeRecent = 30,
     iconUrl = ''a.ico'', logoUrl = ''a.png'', hasStats = True, lastPlayed = Some 1700000000 \<rparr>"

definition example_game_b :: steam_game where
  "example_game_b = \<lparr> appId = Some 20, name = Some ''B'', playtimeTotal = 0, playtimeRecent = 0,
     iconUrl = ''b.ico'', logoUrl = ''b.png'', hasStats = False, lastPlayed = None \<rparr>"

definition example_game_null :: steam_game where
  "example_game_null = \<lparr> appId = None, name = Some ''C'', playtimeTotal = 45, playtimeRecent = 0,
     iconUrl = ''c.ico'', logoUrl = ''c.png'', hasStats = False, lastPlayed = None \<rparr>"

definition example_game_zero :: steam_game where
  "example_game_zero = \<lparr> appId = Some 0, name = Some ''Zero'', playtimeTotal = 60, playtimeRecent = 0,
     iconUrl = ''z.ico'', logoUrl = ''z.png'', hasStats = False, lastPlayed = None \<rparr>"

text \<open>A gateway that answers with the given list, and a data gateway that accepts every create.\<close>

definition example_env :: "steam_game list \<Rightarrow> sync_env" where
  "example_env games = \<lparr> syncSteamLibrary = Inr (Some games), data_client = True,
     game_create_throws = (\<lambda>_. False), entry_create_throws = (\<lambda>_. False) \<rparr>"

definition example_state :: sync_state where
  "example_state = \<lparr> steam_games = Map.empty, library_entries = Map.empty, database = [], events = [] \<rparr>"

text \<open>
  A user's curation of the mirrored entries (rating, notes, status), as an edit of the
  stored collection; the state between two syncs in which the user rated the one game
  5, wrote a note and marked it finished.
\<close>

definition set_curation :: "string \<Rightarrow> int \<Rightarrow> string \<Rightarrow> game_status \<Rightarrow> sync_state \<Rightarrow> sync_state" where
  "set_curation uid r n s st =
     st\<lparr> library_entries := (library_entries st)(uid \<mapsto>
            map (\<lambda>e. e\<lparr> rating := Some r, entry_notes := n, status := s \<rparr>)
              (case library_entries st uid of None \<Rightarrow> [] | Some es \<Rightarrow> es)) \<rparr>"

definition example_curated_state :: sync_state where
  "example_curated_state =
     set_curation ''u'' 5 ''great'' Finished
       (snd (syncGameLibrary (example_env [example_game_a]) 1000 ''u'' example_state))"

fun is_entry_request :: "db_request \<Rightarrow> bool" where
  "is_entry_request (CreateLibraryEntry r) = True"
| "is_entry_request (CreateGame g) = False"

section \<open>SteamAmplifyService: activity and achievement feeds\<close>

subsection \<open>getRecentActivity\<close>

text \<open>
  An item of the activity feed. A played item carries \<^verbatim>\<open>recentHours\<close> and no rating, a
  finished item a rating and no \<^verbatim>\<open>recentHours\<close>: an absent field and a \<^verbatim>\<open>null\<close> one are
  both \<open>None\<close>. The fields \<^verbatim>\<open>id\<close>, \<^verbatim>\<open>game\<close>, \<^verbatim>\<open>gameCover\<close>, \<^verbatim>\<open>hoursPlayed\<close> and
  \<^verbatim>\<open>rating\<close> of the source carry the prefix \<open>act_\<close> here.
\<close>

datatype activity_action = Played | FinishedGame

record activity =
  act_id :: string
  action :: activity_action
  act_game :: "string option"
  act_gameCover :: string
  timestamp :: "int option"
  act_hoursPlayed :: int
  recentHours :: "int option"
  act_rating :: "int option"

text \<open>
  \<^verbatim>\<open>new Date(t || 0).getTime()\<close>, and \<^verbatim>\<open>new Date(t).getTime()\<close> for a \<^verbatim>\<open>null\<close> \<open>t\<close>: a
  missing instant counts as time 0.
\<close>

definition instant_or_zero :: "int option \<Rightarrow> int" where
  "instant_or_zero t = (case t of None \<Rightarrow> 0 | Some ms \<Rightarrow> ms)"

definition played_activity :: "library_entry \<Rightarrow> activity" where
  "played_activity g =
     \<lparr> act_id = ''played-'' @ tmpl_num (steamAppId g),
       action = Played,
       act_game = gameTitle g,
       act_gameCover = gameCover g,
       timestamp = steamLastPlayed g,
       act_hoursPlayed = hoursPlayed g,
       recentHours = Some (round_div60 (steamPlaytimeRecent g)),
       act_rating = None \<rparr>"

definition finished_activity :: "library_entry \<Rightarrow> activity" where
  "finished_activity g =
     \<lparr> act_id = ''finished-'' @ tmpl_num (steamAppId g),
       action = FinishedGame,
       act_game = gameTitle g,
       act_gameCover = gameCover g,
       timestamp = steamLastPlayed g,
       act_hoursPlayed = hoursPlayed g,
       recentHours = None,
       act_rating = rating g \<rparr>"

text \<open>
  The argument is the user's list of mirrored entries; a stored instant is a non-empty
  string, so \<^verbatim>\<open>game.steamLastPlayed && ...\<close> tests that it is not \<^verbatim>\<open>null\<close>. A \<^verbatim>\<open>null\<close>
  argument returns the empty list as the empty array does.
\<close>

definition getRecentActivity :: "library_entry list \<Rightarrow> activity list" where
  "getRecentActivity steamGames =
     (if steamGames = [] then []
      else
        let recentlyPlayed =
              map played_activity
                (take 5 (sort_desc (\<lambda>g. instant_or_zero (steamLastPlayed g))
                  (filter (\<lambda>g. steamLastPlayed g \<noteq> None \<and> steamPlaytimeRecent g > 0) steamGames)));
            finishedGames =
              map finished_activity
                (take 3 (sort_desc (\<lambda>g. instant_or_zero (steamLastPlayed g))
                  (filter (\<lambda>g. steamPlaytimeTotal g > 0 \<and> steamPlaytimeRecent g = 0) steamGames)));
            activities = recentlyPlayed @ finishedGames
        in take 10 (sort_desc (\<lambda>a. instant_or_zero (timestamp a)) activities))"

subsection \<open>getRecentAchievements\<close>

text \<open>
  The games are \<^verbatim>\<open>any[]\<close>: the function reads either spelling of each field
  (\<^verbatim>\<open>steamHasStats || hasStats\<close>, \<^verbatim>\<open>steamAppId || appId\<close>, ...), so the record has both,
  each absent (\<open>None\<close>, or \<open>False\<close> for a flag) when the object lacks it.
\<close>

record any_game =
  any_steamHasStats :: bool
  any_hasStats :: bool
  any_steamAppId :: "int option"
  any_appId :: "int option"
  any_gameTitle :: "string option"
  any_name :: "string option"
  any_gameCover :: "string option"
  any_header_image :: "string option"
  any_logoUrl :: "string option"
  any_iconUrl :: "string option"

record achievement =
  apiName :: string
  achieved :: bool
  unlockTime :: int
  achievement_name :: string
  description :: string

record unlocked =
  unlocked_id :: string
  unlocked_game :: string
  unlocked_gameCover :: string
  unlocked_achievement :: string
  unlocked_description :: string
  unlockedAt :: int
  gameAppId :: int

text \<open>
  The answer of \<^verbatim>\<open>getPlayerAchievements\<close> for one game, which never throws: no success
  or no data; data whose \<^verbatim>\<open>achievements\<close> is not an array (the \<^verbatim>\<open>filter\<close> call then
  throws inside the loop's \<^verbatim>\<open>try\<close>); or the list of achievements.
\<close>

datatype achievements_response = Failed | NoList | Achievements "achievement list"

definition string_or :: "string option \<Rightarrow> string" where
  "string_or s = (case s of None \<Rightarrow> '''' | Some t \<Rightarrow> t)"

definition game_app_id :: "any_game \<Rightarrow> int option" where
  "game_app_id g = or_num (any_steamAppId g) (any_appId g)"

definition gamesWithStats :: "any_game list \<Rightarrow> any_game list" where
  "gamesWithStats steamGames =
     take 10 (filter (\<lambda>g. (any_steamHasStats g \<or> any_hasStats g) \<and> truthy_num (game_app_id g))
       steamGames)"

definition make_unlocked :: "any_game \<Rightarrow> int \<Rightarrow> achievement \<Rightarrow> unlocked" where
  "make_unlocked g app a =
     \<lparr> unlocked_id = ''achievement-'' @ show_int app @ ''-'' @ apiName a,
       unlocked_game = string_or (or_str (or_str (any_gameTitle g) (any_name g)) (Some ''Unknown Game'')),
       unlocked_gameCover =
         string_or (or_str (or_str (or_str (or_str (any_gameCover g) (any_header_image g))
           (any_logoUrl g)) (any_iconUrl g)) (Some '''')),
       unlocked_achievement = achievement_name a,
       unlocked_description = description a,
       unlockedAt = unlockTime a * 1000,
       gameAppId = app \<rparr>"

definition recent_three :: "achievement list \<Rightarrow> achievement list" where
  "recent_three achievements =
     take 3 (sort_desc unlockTime (filter (\<lambda>a. achieved a \<and> unlockTime a > 0) achievements))"

definition recentUnlocks :: "any_game \<Rightarrow> int \<Rightarrow> achievement list \<Rightarrow> unlocked list" where
  "recentUnlocks g app achievements = map (make_unlocked g app) (recent_three achievements)"

text \<open>
  The loop over the selected games, one request at a time. It threads the achievements
  collected so far and the identifiers requested so far.
\<close>

fun achievements_loop ::
  "(int \<Rightarrow> achievements_response) \<Rightarrow> any_game list \<Rightarrow> unlocked list \<times> int list \<Rightarrow> unlocked list \<times> int list" where
  "achievements_loop fetch [] acc = acc"
| "achievements_loop fetch (g # gs) (recent, requested) =
     (if \<not> truthy_num (game_app_id g) then achievements_loop fetch gs (recent, requested)
      else
        let app = (case game_app_id g of Some n \<Rightarrow> n | None \<Rightarrow> 0) in
        (case fetch app of
           Failed \<Rightarrow> achievements_loop fetch gs (recent, requested @ [app])
         | NoList \<Rightarrow> achievements_loop fetch gs (recent, requested @ [app])
         | Achievements achievements \<Rightarrow>
             achievements_loop fetch gs
               (recent @ recentUnlocks g app achievements, requested @ [app])))"

text \<open>
  The result: the feed, and the identifiers for which achievements were requested. The
  argument \<open>fetch\<close> is \<^verbatim>\<open>getPlayerAchievements\<close> for the given Steam user.
\<close>

definition getRecentAchievements ::
  "(int \<Rightarrow> achievements_response) \<Rightarrow> any_game list \<Rightarrow> unlocked list \<times> int list" where
  "getRecentAchievements fetch steamGames =
     (if steamGames = [] then ([], [])
      else
        let (recentAchievements, requested) = achievements_loop fetch (gamesWithStats steamGames) ([], [])
        in (take 15 (sort_desc unlockedAt recentAchievements), requested))"

subsection \<open>Example data for the feeds\<close>

definition example_entry :: "int \<Rightarrow> int option \<Rightarrow> int \<Rightarrow> int \<Rightarrow> library_entry" where
  "example_entry n lp tot rec =
     (make_library_entry 0 ''u'' example_game_a)
       \<lparr> steamAppId := Some n, steamLastPlayed := lp, steamPlaytimeTotal := tot,
         steamPlaytimeRecent := rec \<rparr>"

definition example_stats_game :: "int \<Rightarrow> any_game" where
  "example_stats_game n =
     \<lparr> any_steamHasStats = True, any_hasStats = False, any_steamAppId = Some n, any_appId = None,
       any_gameTitle = Some ''T'', any_name = None, any_gameCover = None, any_header_image = None,
       any_logoUrl = Some ''logo'', any_iconUrl = None \<rparr>"

definition example_achievement :: "int \<Rightarrow> bool \<Rightarrow> achievement" where
  "example_achievement t b =
     \<lparr> apiName = ''ACH'', achieved = b, unlockTime = t, achievement_name = ''n'', description = ''d'' \<rparr>"

text \<open>
  Eleven games with statistics; the request for game 3 fails, the answer for game 4 has
  no list, every other game has four unlocked achievements, one locked and one unlocked
  at time 0.
\<close>

definition example_eleven :: "any_game list" where
  "example_eleven = map example_stats_game [1, 2, 3, 4, 5, 6, 7, 8, 9, 10, 11]"

definition example_fetch :: "int \<Rightarrow> achievements_response" where
  "example_fetch n =
     (if n = 3 then Failed
      else if n = 4 then NoList
      else Achievements
        [example_achievement (n * 10) True, example_achievement (n * 10 + 1) True,
         example_achievement 0 True, example_achievement 5 False,
         example_achievement (n * 10 + 2) True, example_achievement (n * 10 + 3) True])"

section \<open>GameDatabase: the catalog client and its cache\<close>

subsection \<open>The cache in local storage\<close>

text \<open>
  \<^verbatim>\<open>cacheData\<close> stores the JSON text of \<^verbatim>\<open>{data, timestamp}\<close> under a string key, and
  \<^verbatim>\<open>getCachedData\<close> parses it back. A stored item is modelled by what the parse yields:
  the envelope, or a text that does not decode (the \<^verbatim>\<open>catch\<close> of \<^verbatim>\<open>getCachedData\<close> then
  returns \<^verbatim>\<open>null\<close>). Local storage is a map from keys to items. The maximal age is a
  number of milliseconds or \<^verbatim>\<open>Infinity\<close>.
\<close>

datatype 'v cache_item = Undecodable | Envelope 'v int

type_synonym 'v storage = "string \<rightharpoonup> 'v cache_item"

datatype max_age = Millis int | Infinity

fun older_than :: "int \<Rightarrow> max_age \<Rightarrow> bool" where
  "older_than age Infinity = False"
| "older_than age (Millis maxAge) = (age > maxAge)"

text \<open>
  The write of \<^verbatim>\<open>cacheData\<close> stands in a \<^verbatim>\<open>try\<close>: when \<^verbatim>\<open>JSON.stringify\<close> or
  \<^verbatim>\<open>localStorage.setItem\<close> throws (the quota is exceeded, the value does not serialise),
  the error is logged and nothing is stored. Whether the write throws is the first
  argument.
\<close>

definition cacheData :: "bool \<Rightarrow> int \<Rightarrow> string \<Rightarrow> 'v \<Rightarrow> 'v storage \<Rightarrow> 'v storage" where
  "cacheData throws now key d ls = (if throws then ls else ls(key \<mapsto> Envelope d now))"

text \<open>The result is the payload (\<open>None\<close> for \<^verbatim>\<open>null\<close>) and the storage the call leaves.\<close>

definition getCachedData :: "int \<Rightarrow> string \<Rightarrow> max_age \<Rightarrow> 'v storage \<Rightarrow> 'v option \<times> 'v storage" where
  "getCachedData now key maxAge ls =
     (case ls key of
        None \<Rightarrow> (None, ls)
      | Some Undecodable \<Rightarrow> (None, ls)
      | Some (Envelope d stamp) \<Rightarrow>
          if older_than (now - stamp) maxAge then (None, ls(key := None)) else (Some d, ls))"

definition CACHE_DURATION_TRENDING :: int where
  "CACHE_DURATION_TRENDING = 6 * 60 * 60 * 1000"

definition CACHE_DURATION_GAME_DETAILS :: int where
  "CACHE_DURATION_GAME_DETAILS = 24 * 60 * 60 * 1000"

definition CACHE_DURATION_SEARCH :: int where
  "CACHE_DURATION_SEARCH = 60 * 60 * 1000"

subsection \<open>Catalog data\<close>

record player_count =
  current :: int
  peak_24h :: int
  all_time_peak :: int

record price_overview =
  currency :: string
  price_initial :: int
  price_final :: int
  discount_percent :: int
  initial_formatted :: string
  final_formatted :: string

record platforms =
  windows :: bool
  mac :: bool
  linux :: bool

text \<open>
  \<^verbatim>\<open>GameDatabaseEntry\<close>. Its fields \<^verbatim>\<open>appid\<close>, \<^verbatim>\<open>name\<close>, \<^verbatim>\<open>header_image\<close>,
  \<^verbatim>\<open>price_overview\<close>, \<^verbatim>\<open>platforms\<close> and \<^verbatim>\<open>player_count\<close> carry the prefix \<open>db_\<close> here.
\<close>

record game_entry =
  db_appid :: int
  db_name :: string
  db_header_image :: string
  capsule_image :: string
  short_description :: string
  genres :: "string list"
  developers :: "string list"
  publishers :: "string list"
  release_date :: string
  db_price_overview :: "price_overview option"
  metacritic_score :: "int option"
  is_free :: bool
  db_platforms :: platforms
  categories :: "string list"
  screenshots :: "string list"
  last_updated :: int
  db_player_count :: player_count

text \<open>
  The fields of \<^verbatim>\<open>SteamAppDetails\<close> that \<^verbatim>\<open>transformSteamAppDetails\<close> reads; of the
  genre, category and screenshot objects and of the release date and the critic score
  only the component that is read (description, full path, date, score). A field read
  with \<^verbatim>\<open>?.\<close> or \<^verbatim>\<open>||\<close> can be absent.
\<close>

record app_details =
  det_appid :: int
  det_name :: string
  det_header_image :: string
  det_capsule_image :: string
  det_short_description :: string
  det_genres :: "string list option"
  det_developers :: "string list option"
  det_publishers :: "string list option"
  det_release_date :: "string option"
  det_price_overview :: "price_overview option"
  det_metacritic :: "int option"
  det_is_free :: bool
  det_platforms :: "platforms option"
  det_categories :: "string list option"
  det_screenshots :: "string list option"

text \<open>
  The untyped game objects that \<^verbatim>\<open>enrichGameData\<close> receives (store search items, or the
  objects that \<^verbatim>\<open>getTrendingGames\<close> builds from the ranks), by the fields that
  \<^verbatim>\<open>transformBasicGameInfo\<close> reads, each absent when the object lacks it.
\<close>

record raw_game =
  raw_appid :: int
  raw_name :: "string option"
  raw_header_image :: "string option"
  raw_capsule_image :: "string option"
  raw_short_description :: "string option"
  raw_genres :: "string list option"
  raw_developers :: "string list option"
  raw_publishers :: "string list option"
  raw_release_date :: "string option"
  raw_price_overview :: "price_overview option"
  raw_metacritic_score :: "int option"
  raw_is_free :: bool
  raw_platforms :: "platforms option"
  raw_categories :: "string list option"
  raw_screenshots :: "string list option"
  raw_current_players :: "int option"
  raw_peak_players_24h :: "int option"
  raw_all_time_peak :: "int option"

text \<open>An element of \<^verbatim>\<open>data.response.ranks\<close> of the most-played endpoint.\<close>

record rank =
  rank_appid :: int
  rank_name :: "string option"
  peak_in_game :: "int option"

text \<open>\<^verbatim>\<open>GameSearchResult\<close>, its fields with the prefix \<open>result_\<close>.\<close>

record search_result =
  result_games :: "game_entry list"
  result_total :: int
  result_page :: int
  result_limit :: int

subsection \<open>The network and the state\<close>

text \<open>
  The outcome of \<^verbatim>\<open>fetch\<close> followed by \<^verbatim>\<open>response.json()\<close>: the request rejects, the
  status is not OK, the body is not JSON, or the parsed body. For the parsed body the
  model keeps what the caller reads, \<open>None\<close> when the caller finds the expected member
  missing (\<^verbatim>\<open>data.response.ranks\<close>, \<^verbatim>\<open>data.items\<close>, a successful \<^verbatim>\<open>data[appId].data\<close>).
\<close>

datatype 'a http_result = Rejected | NotOk | NotJson | Json 'a

datatype request = GetMostPlayedGames | StoreSearch string int | AppDetails int

text \<open>
  The upstream services, the three pseudo-random player counts that
  \<^verbatim>\<open>transformSteamAppDetails\<close> draws for a game, and whether the write of a cache record
  under a given key throws.
\<close>

record catalog_env =
  most_played :: "rank list option http_result"
  storesearch :: "string \<Rightarrow> int \<Rightarrow> (raw_game list \<times> int) option http_result"
  appdetails :: "int \<Rightarrow> app_details option http_result"
  random_player_count :: "int \<Rightarrow> player_count"
  write_throws :: "string \<Rightarrow> bool"

text \<open>
  The four key classes of the cache have prefixes none of which is a prefix of another,
  and each class holds one type of payload: the state keeps one typed map per class, under
  the keys that the code builds, and the list of requests sent so far. The class of the
  genre lists, which only \<^verbatim>\<open>getGamesByGenre\<close> reads and writes, is left out.
\<close>

record catalog_state =
  trending_games :: "game_entry list storage"
  game_details :: "game_entry storage"
  search_results :: "search_result storage"
  network :: "request list"

subsection \<open>Transformations\<close>

definition list_or_empty :: "'a list option \<Rightarrow> 'a list" where
  "list_or_empty xs = (case xs of None \<Rightarrow> [] | Some ys \<Rightarrow> ys)"

definition num_or_zero :: "int option \<Rightarrow> int" where
  "num_or_zero n = (case n of None \<Rightarrow> 0 | Some m \<Rightarrow> m)"

definition no_platforms :: platforms where
  "no_platforms = \<lparr> windows = False, mac = False, linux = False \<rparr>"

definition transformSteamAppDetails :: "catalog_env \<Rightarrow> int \<Rightarrow> app_details \<Rightarrow> game_entry" where
  "transformSteamAppDetails env now details =
     \<lparr> db_appid = det_appid details,
       db_name = det_name details,
       db_header_image = det_header_image details,
       capsule_image = det_capsule_image details,
       short_description = det_short_description details,
       genres = list_or_empty (det_genres details),
       developers = list_or_empty (det_developers details),
       publishers = list_or_empty (det_publishers details),
       release_date = string_or (or_str (det_release_date details) (Some '''')),
       db_price_overview = det_price_overview details,
       metacritic_score = det_metacritic details,
       is_free = det_is_free details,
       db_platforms = (case det_platforms details of None \<Rightarrow> no_platforms | Some p \<Rightarrow> p),
       categories = list_or_empty (det_categories details),
       screenshots = list_or_empty (det_screenshots details),
       last_updated = now,
       db_player_count = random_player_count env (det_appid details) \<rparr>"

definition transformBasicGameInfo :: "int \<Rightarrow> raw_game \<Rightarrow> game_entry" where
  "transformBasicGameInfo now g =
     \<lparr> db_appid = raw_appid g,
       db_name = string_or (or_str (raw_name g) (Some ''Unknown Game'')),
       db_header_image = string_or (or_str (raw_header_image g) (Some '''')),
       capsule_image = string_or (or_str (raw_capsule_image g) (Some '''')),
       short_description = string_or (or_str (raw_short_description g) (Some '''')),
       genres = list_or_empty (raw_genres g),
       developers = list_or_empty (raw_developers g),
       publishers = list_or_empty (raw_publishers g),
       release_date = string_or (or_str (raw_release_date g) (Some '''')),
       db_price_overview = raw_price_overview g,
       metacritic_score = raw_metacritic_score g,
       is_free = raw_is_free g,
       db_platforms = (case raw_platforms g of None \<Rightarrow> no_platforms | Some p \<Rightarrow> p),
       categories = list_or_empty (raw_categories g),
       screenshots = list_or_empty (raw_screenshots g),
       last_updated = now,
       db_player_count =
         \<lparr> current = num_or_zero (raw_current_players g),
           peak_24h = num_or_zero (raw_peak_players_24h g),
           all_time_peak = num_or_zero (raw_all_time_peak g) \<rparr> \<rparr>"

text \<open>
  The object that \<^verbatim>\<open>getTrendingGames\<close> builds from a rank. Its \<^verbatim>\<open>last_updated\<close> and
  \<^verbatim>\<open>player_count\<close> members are read by nothing downstream (\<^verbatim>\<open>transformBasicGameInfo\<close>
  reads \<^verbatim>\<open>current_players\<close> and its siblings, which this object lacks), so the raw record
  has no field for them.
\<close>

definition trending_raw :: "rank \<Rightarrow> raw_game" where
  "trending_raw r =
     \<lparr> raw_appid = rank_appid r,
       raw_name = rank_name r,
       raw_header_image =
         Some (''https://cdn.akamai.steamstatic.com/steam/apps/'' @ show_int (rank_appid r) @ ''/header.jpg''),
       raw_capsule_image =
         Some (''https://cdn.akamai.steamstatic.com/steam/apps/'' @ show_int (rank_appid r) @ ''/capsule_184x69.jpg''),
       raw_short_description = Some '''',
       raw_genres = Some [],
       raw_developers = Some [],
       raw_publishers = Some [],
       raw_release_date = Some '''',
       raw_price_overview = None,
       raw_metacritic_score = None,
       raw_is_free = False,
       raw_platforms = Some \<lparr> windows = True, mac = False, linux = False \<rparr>,
       raw_categories = Some [],
       raw_screenshots = Some [],
       raw_current_players = None,
       raw_peak_players_24h = None,
       raw_all_time_peak = None \<rparr>"

subsection \<open>getGameDetails and enrichGameData\<close>

definition sent :: "request \<Rightarrow> catalog_state \<Rightarrow> catalog_state" where
  "sent r st = st\<lparr> network := network st @ [r] \<rparr>"

definition getGameDetails :: "catalog_env \<Rightarrow> int \<Rightarrow> int \<Rightarrow> catalog_state \<Rightarrow> game_entry option \<times> catalog_state" where
  "getGameDetails env now app st =
     (let cacheKey = ''gameshelf-game-details-'' @ show_int app;
          (cached, details') = getCachedData now cacheKey (Millis CACHE_DURATION_GAME_DETAILS) (game_details st);
          st1 = st\<lparr> game_details := details' \<rparr>
      in case cached of
           Some entry \<Rightarrow> (Some entry, st1)
         | None \<Rightarrow>
             (case appdetails env app of
                Json (Some details) \<Rightarrow>
                  (let g = transformSteamAppDetails env now details;
                       st2 = sent (AppDetails app) st1
                   in (Some g, st2\<lparr> game_details := cacheData (write_throws env cacheKey) now cacheKey g (game_details st2) \<rparr>))
              | _ \<Rightarrow> (None, sent (AppDetails app) st1)))"

text \<open>
  \<^verbatim>\<open>getGameDetails\<close> catches every failure itself, so the \<^verbatim>\<open>catch\<close> in the loop of
  \<^verbatim>\<open>enrichGameData\<close> is never entered; both of its paths push the basic transform.
\<close>

fun enrichGameData :: "catalog_env \<Rightarrow> int \<Rightarrow> raw_game list \<Rightarrow> catalog_state \<Rightarrow> game_entry list \<times> catalog_state" where
  "enrichGameData env now [] st = ([], st)"
| "enrichGameData env now (g # gs) st =
     (let (details, st1) = getGameDetails env now (raw_appid g) st;
          enriched = (case details of Some d \<Rightarrow> d | None \<Rightarrow> transformBasicGameInfo now g);
          (rest, st2) = enrichGameData env now gs st1
      in (enriched # rest, st2))"

subsection \<open>getTrendingGames and searchGames\<close>

definition trending_key :: "int \<Rightarrow> string" where
  "trending_key limit = ''gameshelf-trending-games-'' @ show_int limit"

text \<open>The \<^verbatim>\<open>catch\<close> block of \<^verbatim>\<open>getTrendingGames\<close>.\<close>

definition trending_fallback :: "int \<Rightarrow> string \<Rightarrow> catalog_state \<Rightarrow> game_entry list \<times> catalog_state" where
  "trending_fallback now cacheKey st =
     (let (cached, trending') = getCachedData now cacheKey Infinity (trending_games st)
      in (case cached of Some gs \<Rightarrow> gs | None \<Rightarrow> [], st\<lparr> trending_games := trending' \<rparr>))"

definition getTrendingGames ::
  "catalog_env \<Rightarrow> int \<Rightarrow> int \<Rightarrow> bool \<Rightarrow> catalog_state \<Rightarrow> game_entry list \<times> catalog_state" where
  "getTrendingGames env now limit forceRefresh st =
     (let cacheKey = trending_key limit;
          (cached, st1) =
            (if forceRefresh then (None, st)
             else
               let (c, trending') = getCachedData now cacheKey (Millis CACHE_DURATION_TRENDING) (trending_games st)
               in (c, st\<lparr> trending_games := trending' \<rparr>))
      in case cached of
           Some gs \<Rightarrow> (gs, st1)
         | None \<Rightarrow>
             (let st2 = sent GetMostPlayedGames st1 in
              case most_played env of
                Json (Some ranks) \<Rightarrow>
                  (let trendingGames = map trending_raw (slice0 limit ranks);
                       (gs, st3) = enrichGameData env now trendingGames st2
                   in (gs, st3\<lparr> trending_games := cacheData (write_throws env cacheKey) now cacheKey gs (trending_games st3) \<rparr>))
              | _ \<Rightarrow> trending_fallback now cacheKey st2))"

definition search_key :: "string \<Rightarrow> int \<Rightarrow> int \<Rightarrow> string" where
  "search_key query limit page =
     ''gameshelf-search-results-'' @ query @ ''-'' @ show_int limit @ ''-'' @ show_int page"

definition searchGames ::
  "catalog_env \<Rightarrow> int \<Rightarrow> string \<Rightarrow> int \<Rightarrow> int \<Rightarrow> catalog_state \<Rightarrow> search_result \<times> catalog_state" where
  "searchGames env now query limit page st =
     (let cacheKey = search_key query limit page;
          (cached, search') = getCachedData now cacheKey (Millis CACHE_DURATION_SEARCH) (search_results st);
          st1 = st\<lparr> search_results := search' \<rparr>
      in case cached of
           Some r \<Rightarrow> (r, st1)
         | None \<Rightarrow>
             (let st2 = sent (StoreSearch query limit) st1 in
              case storesearch env query limit of
                Json (Some (items, tot)) \<Rightarrow>
                  (let (gs, st3) = enrichGameData env now items st2;
                       r = \<lparr> result_games = gs, result_total = tot, result_page = page, result_limit = limit \<rparr>
                   in (r, st3\<lparr> search_results := cacheData (write_throws env cacheKey) now cacheKey r (search_results st3) \<rparr>))
              | _ \<Rightarrow>
                  (\<lparr> result_games = [], result_total = 0, result_page = page, result_limit = limit \<rparr>, st2)))"

subsection \<open>Example data for the catalog\<close>

definition example_catalog_entry :: game_entry where
  "example_catalog_entry = transformBasicGameInfo 0 (trending_raw \<lparr> rank_appid = 730, rank_name = Some ''CS'', peak_in_game = Some 9 \<rparr>)"

definition example_ranks :: "rank list" where
  "example_ranks =
     [\<lparr> rank_appid = 730, rank_name = None, peak_in_game = Some 900 \<rparr>,
      \<lparr> rank_appid = 570, rank_name = None, peak_in_game = Some 800 \<rparr>]"

text \<open>
  An upstream that is down, and one that serves two ranks and one search item but no
  details; in both every cache write succeeds.
\<close>

definition example_offline :: catalog_env where
  "example_offline =
     \<lparr> most_played = Rejected, storesearch = (\<lambda>_ _. Rejected), appdetails = (\<lambda>_. Rejected),
       random_player_count = (\<lambda>_. \<lparr> current = 1000, peak_24h = 5000, all_time_peak = 10000 \<rparr>),
       write_throws = (\<lambda>_. False) \<rparr>"

definition example_online :: catalog_env where
  "example_online =
     \<lparr> most_played = Json (Some example_ranks),
       storesearch = (\<lambda>_ _. Json (Some ([trending_raw \<lparr> rank_appid = 440, rank_name = Some ''TF'', peak_in_game = None \<rparr>], 1))),
       appdetails = (\<lambda>_. Json None),
       random_player_count = (\<lambda>_. \<lparr> current = 1000, peak_24h = 5000, all_time_peak = 10000 \<rparr>),
       write_throws = (\<lambda>_. False) \<rparr>"

definition example_empty_catalog :: catalog_state where
  "example_empty_catalog =
     \<lparr> trending_games = Map.empty, game_details = Map.empty, search_results = Map.empty, network = [] \<rparr>"

text \<open>A cache whose only record, the trending list for limit 10, was captured at time 0.\<close>

definition example_stale_catalog :: catalog_state where
  "example_stale_catalog =
     example_empty_catalog\<lparr> trending_games := [trending_key 10 \<mapsto> Envelope [example_catalog_entry] 0] \<rparr>"

section \<open>Properties\<close>

subsection \<open>JavaScript primitives\<close>

lemma js_rem_nonneg: "0 \<le> a \<Longrightarrow> js_rem a 60 = a mod 60"
  by (cases "a = 0") (simp_all add: js_rem_def)

lemma digit_char_code: "d < 10 \<Longrightarrow> of_char (digit_char d) = (48 + d :: nat)"
proof -
  assume "d < 10"
  then have "d = 0 \<or> d = 1 \<or> d = 2 \<or> d = 3 \<or> d = 4 \<or> d = 5 \<or> d = 6 \<or> d = 7 \<or> d = 8 \<or> d = 9"
    by arith
  then show ?thesis
    by (elim disjE) (simp_all add: digit_char_def)
qed

lemma show_nat_value: "digits_value (show_nat n) = n"
proof (induction n rule: show_nat.induct)
  case (1 n)
  show ?case
  proof (cases "n < 10")
    case True
    then show ?thesis
      by (subst show_nat.simps) (simp add: digits_value_def digit_char_code)
  next
    case False
    with 1 have "digits_value (show_nat (n div 10)) = n div 10" by simp
    with False show ?thesis
      by (subst show_nat.simps) (simp add: digits_value_def digit_char_code)
  qed
qed

subsection \<open>formatPlaytime\<close>

text \<open>
  Claim C9. \<open>formatPlaytime\<close> renders 0, 59, 60, 90 and 125 minutes as "0 minutes",
  "59 minutes", "1 hour", "1h 30m" and "2h 5m"; and for every nonnegative minute count
  \<open>m\<close> the result is the count followed by " minute" (for 1) or " minutes" when \<open>m\<close> is under
  an hour, the hour count followed by " hour" (for 1) or " hours" when \<open>m\<close> is an exact
  multiple of 60, and hours, "h ", remaining minutes, "m" otherwise.
\<close>

theorem formatPlaytime_spec:
  "formatPlaytime 0 = ''0 minutes'' \<and>
   formatPlaytime 59 = ''59 minutes'' \<and>
   formatPlaytime 60 = ''1 hour'' \<and>
   formatPlaytime 90 = ''1h 30m'' \<and>
   formatPlaytime 125 = ''2h 5m'' \<and>
   (\<forall>m \<ge> 0. formatPlaytime m =
      (if m < 60 then show_int m @ (if m = 1 then '' minute'' else '' minutes'')
       else if m mod 60 = 0 then show_int (m div 60) @ (if m div 60 = 1 then '' hour'' else '' hours'')
       else show_int (m div 60) @ ''h '' @ show_int (m mod 60) @ ''m''))"
proof (intro conjI allI impI)
  show "formatPlaytime 0 = ''0 minutes''" by code_simp
  show "formatPlaytime 59 = ''59 minutes''" by code_simp
  show "formatPlaytime 60 = ''1 hour''" by code_simp
  show "formatPlaytime 90 = ''1h 30m''" by code_simp
  show "formatPlaytime 125 = ''2h 5m''" by code_simp
next
  fix m :: int
  assume m: "0 \<le> m"
  have z: "show_int 0 = ''0''"
    by (simp add: show_int_def show_nat.simps digit_char_def)
  show "formatPlaytime m =
      (if m < 60 then show_int m @ (if m = 1 then '' minute'' else '' minutes'')
       else if m mod 60 = 0 then show_int (m div 60) @ (if m div 60 = 1 then '' hour'' else '' hours'')
       else show_int (m div 60) @ ''h '' @ show_int (m mod 60) @ ''m'')"
    using m by (auto simp: formatPlaytime_def js_rem_nonneg Let_def z)
qed

theorem formatPlaytime_spec_witness:
  "(0::int) \<le> 61 \<and> formatPlaytime 61 = ''1h 1m'' \<and> formatPlaytime 1 = ''1 minute'' \<and>
   formatPlaytime 120 = ''2 hours''"
proof -
  have d: "show_int 1 = ''1''" "show_int 2 = ''2''"
    by (simp_all add: show_int_def show_nat.simps digit_char_def)
  have g: "\<And>m. 0 \<le> m \<Longrightarrow> formatPlaytime m =
      (if m < 60 then show_int m @ (if m = 1 then '' minute'' else '' minutes'')
       else if m mod 60 = 0 then show_int (m div 60) @ (if m div 60 = 1 then '' hour'' else '' hours'')
       else show_int (m div 60) @ ''h '' @ show_int (m mod 60) @ ''m'')"
    using formatPlaytime_spec by blast
  show ?thesis
    using g [of 61] g [of 1] g [of 120] by (simp add: d)
qed

subsection \<open>Library sync\<close>

lemma store_games_append: "store_games env uid games db = db @ store_games env uid games []"
proof (induction games arbitrary: db)
  case Nil
  then show ?case by simp
next
  case (Cons g gs)
  show ?case
    using Cons.IH [of "db @ [CreateGame (make_game_row g)]"]
      Cons.IH [of "db @ [CreateGame (make_game_row g), CreateLibraryEntry (make_entry_row uid g)]"]
      Cons.IH [of "[CreateGame (make_game_row g)]"]
      Cons.IH [of "[CreateGame (make_game_row g), CreateLibraryEntry (make_entry_row uid g)]"]
      Cons.IH [of db]
    by simp
qed

lemma store_games_rows:
  "CreateLibraryEntry r \<in> set (store_games env uid games []) \<Longrightarrow> \<exists>g \<in> set games. r = make_entry_row uid g"
proof (induction games)
  case Nil
  then show ?case by simp
next
  case (Cons g gs)
  then show ?case
    using store_games_append [of env uid gs "[CreateGame (make_game_row g)]"]
      store_games_append [of env uid gs "[CreateGame (make_game_row g), CreateLibraryEntry (make_entry_row uid g)]"]
    by (auto split: if_splits)
qed

text \<open>Whether the sync throws is decided by the gateways alone, not by the stored state.\<close>

lemma sync_fst:
  "fst (syncGameLibrary env now uid st) =
     (case syncSteamLibrary env of
        Inl e \<Rightarrow> Some e
      | Inr None \<Rightarrow> None
      | Inr (Some games) \<Rightarrow> if filter valid_game games = [] \<or> data_client env then None else Some DataClientError)"
  by (auto simp: syncGameLibrary_def storeGamesInDatabase_def Let_def split: sum.splits option.splits)

lemma sync_mirror:
  assumes "syncSteamLibrary env = Inr (Some games)" and "fst (syncGameLibrary env now uid st) = None"
  shows "library_entries (snd (syncGameLibrary env now uid st)) uid
           = Some (map (make_library_entry now uid) (filter valid_game games))"
  using assms
  by (auto simp: syncGameLibrary_def storeGamesInDatabase_def write_empty_def Let_def split: if_splits)

lemma sync_database:
  assumes "syncSteamLibrary env = Inr (Some games)" and "fst (syncGameLibrary env now uid st) = None"
  shows "database (snd (syncGameLibrary env now uid st))
           = database st @ store_games env uid (filter valid_game games) []"
  using assms store_games_append [of env uid "filter valid_game games" "database st"]
  by (auto simp: syncGameLibrary_def storeGamesInDatabase_def write_empty_def Let_def split: if_splits)


lemma derive_status_policy:
  "(t = 0 \<longrightarrow> derive_status t r = Planning) \<and>
   (t > 0 \<and> r > 0 \<longrightarrow> derive_status t r = Playing) \<and>
   (t > 0 \<and> r = 0 \<longrightarrow> derive_status t r = Paused) \<and>
   derive_status t r \<noteq> Finished \<and> derive_status t r \<noteq> Dropped"
  by (simp add: derive_status_def)


lemma example_env_simps:
  "syncSteamLibrary (example_env games) = Inr (Some games)"
  "data_client (example_env games) = True"
  "game_create_throws (example_env games) row = False"
  "entry_create_throws (example_env games) erow = False"
  by (simp_all add: example_env_def)

lemma example_valid:
  "valid_game example_game_a" "valid_game example_game_b"
  "\<not> valid_game example_game_null" "\<not> valid_game example_game_zero"
  by (simp_all add: valid_game_def example_game_a_def example_game_b_def example_game_null_def
      example_game_zero_def)

lemma store_games_contains:
  assumes "g \<in> set games"
    and "\<not> game_create_throws env (make_game_row g)"
    and "\<not> entry_create_throws env (make_entry_row uid g)"
  shows "CreateLibraryEntry (make_entry_row uid g) \<in> set (store_games env uid games db)"
  using assms(1)
proof (induction games arbitrary: db)
  case Nil
  then show ?case by simp
next
  case (Cons h hs)
  show ?case
  proof (cases "g = h")
    case True
    have "store_games env uid (h # hs) db =
        store_games env uid hs (db @ [CreateGame (make_game_row h), CreateLibraryEntry (make_entry_row uid h)])"
      using True assms(2,3) by simp
    also have "\<dots> = (db @ [CreateGame (make_game_row h), CreateLibraryEntry (make_entry_row uid h)])
        @ store_games env uid hs []"
      by (rule store_games_append)
    finally show ?thesis using True by simp
  next
    case False
    with Cons.prems have "g \<in> set hs" by simp
    from Cons.IH [OF this] show ?thesis by simp
  qed
qed

text \<open>
  Claim C2. A sync that returns writes one mirrored entry per valid upstream game, in
  upstream order, and each carries that game's playtimes and the status \<open>Planning\<close> when
  the total playtime is 0, \<open>Playing\<close> when total and recent playtime are both positive,
  \<open>Paused\<close> when the total is positive and the recent playtime is 0, whatever the
  magnitudes; every valid game whose two creates do not throw has a LibraryEntry row
  with the same status in the database; and no entry or row made by the sync is
  \<open>Finished\<close> or \<open>Dropped\<close>.
\<close>

theorem sync_status_policy:
  assumes "syncSteamLibrary env = Inr (Some games)"
    and "fst (syncGameLibrary env now uid st) = None"
    and "library_entries (snd (syncGameLibrary env now uid st)) uid = Some entries"
  shows "length entries = length (filter valid_game games) \<and>
         (\<forall>i < length (filter valid_game games).
            steamAppId (entries ! i) = appId (filter valid_game games ! i) \<and>
            steamPlaytimeTotal (entries ! i) = playtimeTotal (filter valid_game games ! i) \<and>
            steamPlaytimeRecent (entries ! i) = playtimeRecent (filter valid_game games ! i) \<and>
            (playtimeTotal (filter valid_game games ! i) = 0 \<longrightarrow> status (entries ! i) = Planning) \<and>
            (playtimeTotal (filter valid_game games ! i) > 0 \<and> playtimeRecent (filter valid_game games ! i) > 0
               \<longrightarrow> status (entries ! i) = Playing) \<and>
            (playtimeTotal (filter valid_game games ! i) > 0 \<and> playtimeRecent (filter valid_game games ! i) = 0
               \<longrightarrow> status (entries ! i) = Paused) \<and>
            status (entries ! i) \<noteq> Finished \<and> status (entries ! i) \<noteq> Dropped) \<and>
         (\<forall>g \<in> set games. valid_game g \<and>
              \<not> game_create_throws env (make_game_row g) \<and> \<not> entry_create_throws env (make_entry_row uid g) \<longrightarrow>
            (\<exists>r. CreateLibraryEntry r \<in> set (database (snd (syncGameLibrary env now uid st))) \<and>
              row_userId r = uid \<and> row_gameId r = ''steam-game-'' @ tmpl_num (appId g) \<and>
              row_steamPlaytimeTotal r = playtimeTotal g \<and> row_steamPlaytimeRecent r = playtimeRecent g \<and>
              (playtimeTotal g = 0 \<longrightarrow> row_status r = Planning) \<and>
              (playtimeTotal g > 0 \<and> playtimeRecent g > 0 \<longrightarrow> row_status r = Playing) \<and>
              (playtimeTotal g > 0 \<and> playtimeRecent g = 0 \<longrightarrow> row_status r = Paused) \<and>
              row_status r \<noteq> Finished \<and> row_status r \<noteq> Dropped)) \<and>
         (\<forall>e \<in> set entries. \<exists>g \<in> set games.
            steamAppId e = appId g \<and> steamPlaytimeTotal e = playtimeTotal g \<and>
            steamPlaytimeRecent e = playtimeRecent g \<and>
            (playtimeTotal g = 0 \<longrightarrow> status e = Planning) \<and>
            (playtimeTotal g > 0 \<and> playtimeRecent g > 0 \<longrightarrow> status e = Playing) \<and>
            (playtimeTotal g > 0 \<and> playtimeRecent g = 0 \<longrightarrow> status e = Paused) \<and>
            status e \<noteq> Finished \<and> status e \<noteq> Dropped) \<and>
         (\<forall>r. CreateLibraryEntry r \<in> set (database (snd (syncGameLibrary env now uid st))) \<and>
              CreateLibraryEntry r \<notin> set (database st) \<longrightarrow>
            (\<exists>g \<in> set games.
              row_steamPlaytimeTotal r = playtimeTotal g \<and> row_steamPlaytimeRecent r = playtimeRecent g \<and>
              (playtimeTotal g = 0 \<longrightarrow> row_status r = Planning) \<and>
              (playtimeTotal g > 0 \<and> playtimeRecent g > 0 \<longrightarrow> row_status r = Playing) \<and>
              (playtimeTotal g > 0 \<and> playtimeRecent g = 0 \<longrightarrow> row_status r = Paused) \<and>
              row_status r \<noteq> Finished \<and> row_status r \<noteq> Dropped))"
proof -
  let ?valid = "filter valid_game games"
  have m: "entries = map (make_library_entry now uid) ?valid"
    using sync_mirror [OF assms(1,2)] assms(3) by simp
  have c1: "length entries = length ?valid"
    by (simp add: m)
  have c2: "\<forall>i < length ?valid.
            steamAppId (entries ! i) = appId (?valid ! i) \<and>
            steamPlaytimeTotal (entries ! i) = playtimeTotal (?valid ! i) \<and>
            steamPlaytimeRecent (entries ! i) = playtimeRecent (?valid ! i) \<and>
            (playtimeTotal (?valid ! i) = 0 \<longrightarrow> status (entries ! i) = Planning) \<and>
            (playtimeTotal (?valid ! i) > 0 \<and> playtimeRecent (?valid ! i) > 0
               \<longrightarrow> status (entries ! i) = Playing) \<and>
            (playtimeTotal (?valid ! i) > 0 \<and> playtimeRecent (?valid ! i) = 0
               \<longrightarrow> status (entries ! i) = Paused) \<and>
            status (entries ! i) \<noteq> Finished \<and> status (entries ! i) \<noteq> Dropped"
  proof (intro allI impI)
    fix i assume i: "i < length ?valid"
    then have e: "entries ! i = make_library_entry now uid (?valid ! i)"
      by (simp add: m)
    show "steamAppId (entries ! i) = appId (?valid ! i) \<and>
            steamPlaytimeTotal (entries ! i) = playtimeTotal (?valid ! i) \<and>
            steamPlaytimeRecent (entries ! i) = playtimeRecent (?valid ! i) \<and>
            (playtimeTotal (?valid ! i) = 0 \<longrightarrow> status (entries ! i) = Planning) \<and>
            (playtimeTotal (?valid ! i) > 0 \<and> playtimeRecent (?valid ! i) > 0
               \<longrightarrow> status (entries ! i) = Playing) \<and>
            (playtimeTotal (?valid ! i) > 0 \<and> playtimeRecent (?valid ! i) = 0
               \<longrightarrow> status (entries ! i) = Paused) \<and>
            status (entries ! i) \<noteq> Finished \<and> status (entries ! i) \<noteq> Dropped"
      unfolding e
      using derive_status_policy [of "playtimeTotal (?valid ! i)" "playtimeRecent (?valid ! i)"]
      by (simp add: make_library_entry_def)
  qed
  have c3: "\<forall>g \<in> set games. valid_game g \<and>
              \<not> game_create_throws env (make_game_row g) \<and> \<not> entry_create_throws env (make_entry_row uid g) \<longrightarrow>
            (\<exists>r. CreateLibraryEntry r \<in> set (database (snd (syncGameLibrary env now uid st))) \<and>
              row_userId r = uid \<and> row_gameId r = ''steam-game-'' @ tmpl_num (appId g) \<and>
              row_steamPlaytimeTotal r = playtimeTotal g \<and> row_steamPlaytimeRecent r = playtimeRecent g \<and>
              (playtimeTotal g = 0 \<longrightarrow> row_status r = Planning) \<and>
              (playtimeTotal g > 0 \<and> playtimeRecent g > 0 \<longrightarrow> row_status r = Playing) \<and>
              (playtimeTotal g > 0 \<and> playtimeRecent g = 0 \<longrightarrow> row_status r = Paused) \<and>
              row_status r \<noteq> Finished \<and> row_status r \<noteq> Dropped)"
  proof (intro ballI impI)
    fix g assume g: "g \<in> set games"
      and h: "valid_game g \<and>
              \<not> game_create_throws env (make_game_row g) \<and> \<not> entry_create_throws env (make_entry_row uid g)"
    from g h have "g \<in> set ?valid" by simp
    from store_games_contains [OF this, of env uid "[]"] h
    have "CreateLibraryEntry (make_entry_row uid g) \<in> set (store_games env uid ?valid [])" by simp
    then have "CreateLibraryEntry (make_entry_row uid g) \<in> set (database (snd (syncGameLibrary env now uid st)))"
      using sync_database [OF assms(1,2)] by simp
    then show "\<exists>r. CreateLibraryEntry r \<in> set (database (snd (syncGameLibrary env now uid st))) \<and>
              row_userId r = uid \<and> row_gameId r = ''steam-game-'' @ tmpl_num (appId g) \<and>
              row_steamPlaytimeTotal r = playtimeTotal g \<and> row_steamPlaytimeRecent r = playtimeRecent g \<and>
              (playtimeTotal g = 0 \<longrightarrow> row_status r = Planning) \<and>
              (playtimeTotal g > 0 \<and> playtimeRecent g > 0 \<longrightarrow> row_status r = Playing) \<and>
              (playtimeTotal g > 0 \<and> playtimeRecent g = 0 \<longrightarrow> row_status r = Paused) \<and>
              row_status r \<noteq> Finished \<and> row_status r \<noteq> Dropped"
      using derive_status_policy [of "playtimeTotal g" "playtimeRecent g"]
      by (intro exI [of _ "make_entry_row uid g"]) (simp add: make_entry_row_def)
  qed
  have c4: "\<forall>e \<in> set entries. \<exists>g \<in> set games.
            steamAppId e = appId g \<and> steamPlaytimeTotal e = playtimeTotal g \<and>
            steamPlaytimeRecent e = playtimeRecent g \<and>
            (playtimeTotal g = 0 \<longrightarrow> status e = Planning) \<and>
            (playtimeTotal g > 0 \<and> playtimeRecent g > 0 \<longrightarrow> status e = Playing) \<and>
            (playtimeTotal g > 0 \<and> playtimeRecent g = 0 \<longrightarrow> status e = Paused) \<and>
            status e \<noteq> Finished \<and> status e \<noteq> Dropped"
  proof
    fix e assume "e \<in> set entries"
    with m obtain g where g: "g \<in> set games" "e = make_library_entry now uid g" by auto
    show "\<exists>g \<in> set games.
            steamAppId e = appId g \<and> steamPlaytimeTotal e = playtimeTotal g \<and>
            steamPlaytimeRecent e = playtimeRecent g \<and>
            (playtimeTotal g = 0 \<longrightarrow> status e = Planning) \<and>
            (playtimeTotal g > 0 \<and> playtimeRecent g > 0 \<longrightarrow> status e = Playing) \<and>
            (playtimeTotal g > 0 \<and> playtimeRecent g = 0 \<longrightarrow> status e = Paused) \<and>
            status e \<noteq> Finished \<and> status e \<noteq> Dropped"
      using g derive_status_policy [of "playtimeTotal g" "playtimeRecent g"]
      by (intro bexI [of _ g]) (simp_all add: make_library_entry_def)
  qed
  have c5: "\<forall>r. CreateLibraryEntry r \<in> set (database (snd (syncGameLibrary env now uid st))) \<and>
              CreateLibraryEntry r \<notin> set (database st) \<longrightarrow>
            (\<exists>g \<in> set games.
              row_steamPlaytimeTotal r = playtimeTotal g \<and> row_steamPlaytimeRecent r = playtimeRecent g \<and>
              (playtimeTotal g = 0 \<longrightarrow> row_status r = Planning) \<and>
              (playtimeTotal g > 0 \<and> playtimeRecent g > 0 \<longrightarrow> row_status r = Playing) \<and>
              (playtimeTotal g > 0 \<and> playtimeRecent g = 0 \<longrightarrow> row_status r = Paused) \<and>
              row_status r \<noteq> Finished \<and> row_status r \<noteq> Dropped)"
  proof (intro allI impI)
    fix r
    assume "CreateLibraryEntry r \<in> set (database (snd (syncGameLibrary env now uid st))) \<and>
              CreateLibraryEntry r \<notin> set (database st)"
    with sync_database [OF assms(1,2)]
    have "CreateLibraryEntry r \<in> set (store_games env uid ?valid [])" by auto
    from store_games_rows [OF this]
    obtain g where g: "g \<in> set games" "r = make_entry_row uid g" by auto
    show "\<exists>g \<in> set games.
              row_steamPlaytimeTotal r = playtimeTotal g \<and> row_steamPlaytimeRecent r = playtimeRecent g \<and>
              (playtimeTotal g = 0 \<longrightarrow> row_status r = Planning) \<and>
              (playtimeTotal g > 0 \<and> playtimeRecent g > 0 \<longrightarrow> row_status r = Playing) \<and>
              (playtimeTotal g > 0 \<and> playtimeRecent g = 0 \<longrightarrow> row_status r = Paused) \<and>
              row_status r \<noteq> Finished \<and> row_status r \<noteq> Dropped"
      using g derive_status_policy [of "playtimeTotal g" "playtimeRecent g"]
      by (intro bexI [of _ g]) (simp_all add: make_entry_row_def)
  qed
  from c1 c2 c3 c4 c5 show ?thesis by (intro conjI)
qed

theorem sync_status_policy_witness:
  "syncSteamLibrary (example_env [example_game_a, example_game_b]) = Inr (Some [example_game_a, example_game_b]) \<and>
   fst (syncGameLibrary (example_env [example_game_a, example_game_b]) 5 ''u'' example_state) = None \<and>
   library_entries (snd (syncGameLibrary (example_env [example_game_a, example_game_b]) 5 ''u'' example_state)) ''u''
     = Some [make_library_entry 5 ''u'' example_game_a, make_library_entry 5 ''u'' example_game_b] \<and>
   filter valid_game [example_game_a, example_game_b] = [example_game_a, example_game_b] \<and>
   status (make_library_entry 5 ''u'' example_game_a) = Playing \<and>
   status (make_library_entry 5 ''u'' example_game_b) = Planning"
proof -
  let ?env = "example_env [example_game_a, example_game_b]"
  have h1: "syncSteamLibrary ?env = Inr (Some [example_game_a, example_game_b])"
    by (simp add: example_env_simps)
  have h2: "fst (syncGameLibrary ?env 5 ''u'' example_state) = None"
    by (simp add: sync_fst example_env_simps)
  have h3: "library_entries (snd (syncGameLibrary ?env 5 ''u'' example_state)) ''u''
     = Some [make_library_entry 5 ''u'' example_game_a, make_library_entry 5 ''u'' example_game_b]"
    using sync_mirror [OF h1 h2] by (simp add: example_valid)
  have v: "filter valid_game [example_game_a, example_game_b] = [example_game_a, example_game_b]"
    by (simp add: example_valid)
  have p: "playtimeTotal example_game_a = 120" "playtimeRecent example_game_a = 30"
    "playtimeTotal example_game_b = 0"
    by (simp_all add: example_game_a_def example_game_b_def)
  note T = sync_status_policy [OF h1 h2 h3, THEN conjunct2, THEN conjunct1, unfolded v]
  have a: "status (make_library_entry 5 ''u'' example_game_a) = Playing"
    using T [rule_format, of 0] by (simp add: p)
  have b: "status (make_library_entry 5 ''u'' example_game_b) = Planning"
    using T [rule_format, of 1] by (simp add: p)
  from h1 h2 h3 v a b show ?thesis by (intro conjI)
qed




text \<open>
  Claim C1, as stated: a second sync with the same upstream data leaves no duplicate
  LibraryEntry and leaves the rating, notes and manually set status of an existing entry
  unchanged. It fails: after one sync the user rates the game 5, writes a note and marks
  it finished; the second sync returns normally and the mirrored entry has no rating, no
  notes and the status \<open>Playing\<close> again, and the data gateway has been asked twice to
  create a LibraryEntry for the same game identifier.
\<close>

theorem sync_overwrites_curation_counterexample:
  "map_option (map (\<lambda>e. (rating e, entry_notes e, status e))) (library_entries example_curated_state ''u'')
     = Some [(Some 5, ''great'', Finished)] \<and>
   fst (syncGameLibrary (example_env [example_game_a]) 2000 ''u'' example_curated_state) = None \<and>
   map_option (map (\<lambda>e. (rating e, entry_notes e, status e)))
     (library_entries (snd (syncGameLibrary (example_env [example_game_a]) 2000 ''u'' example_curated_state)) ''u'')
     = Some [(None, '''', Playing)] \<and>
   map row_gameId (concat (map (\<lambda>q. case q of CreateLibraryEntry r \<Rightarrow> [r] | CreateGame g \<Rightarrow> [])
     (database (snd (syncGameLibrary (example_env [example_game_a]) 2000 ''u'' example_curated_state)))))
     = [''steam-game-10'', ''steam-game-10'']"
  by code_simp

text \<open>
  Claim C1, amended. A sync that returns replaces the user's mirrored collection as a
  whole: after a second sync with the same upstream data, whatever was edited in between,
  the collection is what a single sync at that time writes, so nothing accumulates across
  runs; it holds one entry per valid upstream game, in upstream order (hence at most one
  per game identifier when the upstream list repeats none), and every entry is rebuilt
  from the upstream data, with no rating, empty notes and the status derived from the
  playtimes.
\<close>

theorem sync_rebuilds_mirror:
  assumes "syncSteamLibrary env = Inr (Some games)"
    and "fst (syncGameLibrary env now uid (edit (snd (syncGameLibrary env earlier uid st)))) = None"
  shows "library_entries (snd (syncGameLibrary env now uid (edit (snd (syncGameLibrary env earlier uid st))))) uid
           = library_entries (snd (syncGameLibrary env now uid st)) uid \<and>
         (\<exists>entries.
            library_entries (snd (syncGameLibrary env now uid (edit (snd (syncGameLibrary env earlier uid st))))) uid
              = Some entries \<and>
            map steamAppId entries = map appId (filter valid_game games) \<and>
            (\<forall>e \<in> set entries. rating e = None \<and> entry_notes e = '''' \<and>
               status e = derive_status (steamPlaytimeTotal e) (steamPlaytimeRecent e)))"
proof -
  let ?mid = "edit (snd (syncGameLibrary env earlier uid st))"
  have ok: "fst (syncGameLibrary env now uid st) = None"
    using assms(2) by (simp add: sync_fst)
  have m2: "library_entries (snd (syncGameLibrary env now uid ?mid)) uid
           = Some (map (make_library_entry now uid) (filter valid_game games))"
    by (rule sync_mirror [OF assms])
  have m1: "library_entries (snd (syncGameLibrary env now uid st)) uid
           = Some (map (make_library_entry now uid) (filter valid_game games))"
    by (rule sync_mirror [OF assms(1) ok])
  have ids: "map steamAppId (map (make_library_entry now uid) (filter valid_game games))
      = map appId (filter valid_game games)"
    by (simp add: make_library_entry_def comp_def)
  have cur: "\<forall>e \<in> set (map (make_library_entry now uid) (filter valid_game games)).
       rating e = None \<and> entry_notes e = '''' \<and>
       status e = derive_status (steamPlaytimeTotal e) (steamPlaytimeRecent e)"
    by (auto simp: make_library_entry_def)
  show ?thesis
    using m1 m2 ids cur by simp
qed

theorem sync_rebuilds_mirror_witness:
  "syncSteamLibrary (example_env [example_game_a]) = Inr (Some [example_game_a]) \<and>
   fst (syncGameLibrary (example_env [example_game_a]) 2000 ''u'' example_curated_state) = None \<and>
   library_entries (snd (syncGameLibrary (example_env [example_game_a]) 2000 ''u'' example_curated_state)) ''u''
     = library_entries (snd (syncGameLibrary (example_env [example_game_a]) 2000 ''u'' example_state)) ''u''"
proof -
  let ?env = "example_env [example_game_a]"
  have h1: "syncSteamLibrary ?env = Inr (Some [example_game_a])"
    by (simp add: example_env_simps)
  have h2: "fst (syncGameLibrary ?env 2000 ''u''
      (set_curation ''u'' 5 ''great'' Finished (snd (syncGameLibrary ?env 1000 ''u'' example_state)))) = None"
    by (simp add: sync_fst example_env_simps)
  from sync_rebuilds_mirror [where edit = "set_curation ''u'' 5 ''great'' Finished" and earlier = 1000
      and st = example_state, OF h1 h2, THEN conjunct1] h1 h2
  show ?thesis
    unfolding example_curated_state_def by simp
qed

subsection \<open>Activity feed\<close>

lemma sort_desc_sorted: "sorted_wrt (\<lambda>a b. k b \<le> k a) (sort_desc k xs)"
proof -
  have "sorted (map (\<lambda>x. - k x) (sort_key (\<lambda>x. - k x) xs))"
    by (rule sorted_sort_key)
  then show ?thesis
    by (simp add: sort_desc_def sorted_map)
qed

lemma set_sort_desc: "set (sort_desc k xs) = set xs"
  by (simp add: sort_desc_def)

lemma sort_desc_Nil: "sort_desc k [] = []"
  by (simp add: sort_desc_def)

lemma activity_fields:
  "action (played_activity g) = Played" "timestamp (played_activity g) = steamLastPlayed g"
  "action (finished_activity g) = FinishedGame" "timestamp (finished_activity g) = steamLastPlayed g"
  by (simp_all add: played_activity_def finished_activity_def)

lemma recent_activity_members:
  assumes "a \<in> set (getRecentActivity games)"
  shows "(\<exists>g \<in> set games. steamLastPlayed g \<noteq> None \<and> steamPlaytimeRecent g > 0 \<and> a = played_activity g) \<or>
         (\<exists>g \<in> set games. steamPlaytimeTotal g > 0 \<and> steamPlaytimeRecent g = 0 \<and> a = finished_activity g)"
proof (cases "games = []")
  case True
  with assms show ?thesis by (simp add: getRecentActivity_def)
next
  case False
  let ?p = "take 5 (sort_desc (\<lambda>g. instant_or_zero (steamLastPlayed g))
                  (filter (\<lambda>g. steamLastPlayed g \<noteq> None \<and> steamPlaytimeRecent g > 0) games))"
  let ?f = "take 3 (sort_desc (\<lambda>g. instant_or_zero (steamLastPlayed g))
                  (filter (\<lambda>g. steamPlaytimeTotal g > 0 \<and> steamPlaytimeRecent g = 0) games))"
  from assms False have "a \<in> set (map played_activity ?p @ map finished_activity ?f)"
    by (auto simp: getRecentActivity_def Let_def set_sort_desc dest: in_set_takeD)
  then consider g where "g \<in> set ?p" "a = played_activity g" | g where "g \<in> set ?f" "a = finished_activity g"
    by auto
  then show ?thesis
  proof cases
    case 1
    from in_set_takeD [OF 1(1)] have "g \<in> set games \<and> steamLastPlayed g \<noteq> None \<and> steamPlaytimeRecent g > 0"
      by (simp add: set_sort_desc)
    with 1(2) show ?thesis by blast
  next
    case 2
    from in_set_takeD [OF 2(1)] have "g \<in> set games \<and> steamPlaytimeTotal g > 0 \<and> steamPlaytimeRecent g = 0"
      by (simp add: set_sort_desc)
    with 2(2) show ?thesis by blast
  qed
qed

lemma recent_activity_ignores:
  "getRecentActivity (filter (\<lambda>g. \<not> (steamLastPlayed g = None \<and> steamPlaytimeRecent g \<noteq> 0)) games)
     = getRecentActivity games"
proof -
  let ?keep = "\<lambda>g. \<not> (steamLastPlayed g = None \<and> steamPlaytimeRecent g \<noteq> 0)"
  have p: "filter (\<lambda>g. steamLastPlayed g \<noteq> None \<and> steamPlaytimeRecent g > 0) (filter ?keep games)
         = filter (\<lambda>g. steamLastPlayed g \<noteq> None \<and> steamPlaytimeRecent g > 0) games"
    by (simp, rule filter_cong) auto
  have f: "filter (\<lambda>g. steamPlaytimeTotal g > 0 \<and> steamPlaytimeRecent g = 0) (filter ?keep games)
         = filter (\<lambda>g. steamPlaytimeTotal g > 0 \<and> steamPlaytimeRecent g = 0) games"
    by (simp, rule filter_cong) auto
  show ?thesis
  proof (cases "filter ?keep games = []")
    case False
    then have "games \<noteq> []" by auto
    with False show ?thesis
      unfolding getRecentActivity_def p f by simp
  next
    case True
    from p [symmetric]
    have "filter (\<lambda>g. steamLastPlayed g \<noteq> None \<and> steamPlaytimeRecent g > 0) games
        = filter (\<lambda>g. steamLastPlayed g \<noteq> None \<and> steamPlaytimeRecent g > 0) []"
      unfolding True .
    moreover from f [symmetric]
    have "filter (\<lambda>g. steamPlaytimeTotal g > 0 \<and> steamPlaytimeRecent g = 0) games
        = filter (\<lambda>g. steamPlaytimeTotal g > 0 \<and> steamPlaytimeRecent g = 0) []"
      unfolding True .
    ultimately show ?thesis
      using True by (simp add: getRecentActivity_def sort_desc_Nil)
  qed
qed

lemma recent_activity_sorted:
  "sorted_wrt (\<lambda>a b. instant_or_zero (timestamp b) \<le> instant_or_zero (timestamp a)) (getRecentActivity games)"
  by (cases "games = []") (simp_all add: getRecentActivity_def Let_def sort_desc_sorted)

text \<open>
  Claim C10. \<open>getRecentActivity\<close> never emits a played item for an entry without a
  last-played instant: every played item has a timestamp and comes from an entry with a
  last-played instant and positive recent playtime; an item without timestamp is a
  finished item (of an entry with recent playtime 0); the feed is ordered newest first
  with a missing timestamp counted as time 0. An entry with nonzero recent playtime and
  no last-played instant is excluded silently: removing all such entries from the input
  does not change the feed.
\<close>

theorem recent_activity_played_needs_last_played:
  "(\<forall>a \<in> set (getRecentActivity games). action a = Played \<longrightarrow>
      timestamp a \<noteq> None \<and>
      (\<exists>g \<in> set games. steamLastPlayed g \<noteq> None \<and> steamPlaytimeRecent g > 0 \<and> a = played_activity g)) \<and>
   (\<forall>a \<in> set (getRecentActivity games). timestamp a = None \<longrightarrow>
      action a = FinishedGame \<and>
      (\<exists>g \<in> set games. steamLastPlayed g = None \<and> steamPlaytimeRecent g = 0 \<and> a = finished_activity g)) \<and>
   getRecentActivity (filter (\<lambda>g. \<not> (steamLastPlayed g = None \<and> steamPlaytimeRecent g \<noteq> 0)) games)
     = getRecentActivity games \<and>
   sorted_wrt (\<lambda>a b. instant_or_zero (timestamp b) \<le> instant_or_zero (timestamp a)) (getRecentActivity games)"
proof (intro conjI ballI impI)
  fix a assume a: "a \<in> set (getRecentActivity games)" and "action a = Played"
  with recent_activity_members [OF a]
  obtain g where g: "g \<in> set games" "steamLastPlayed g \<noteq> None" "steamPlaytimeRecent g > 0" "a = played_activity g"
    by (auto simp: activity_fields)
  then show "timestamp a \<noteq> None" by (simp add: activity_fields)
  from g show "\<exists>g \<in> set games. steamLastPlayed g \<noteq> None \<and> steamPlaytimeRecent g > 0 \<and> a = played_activity g"
    by blast
next
  fix a assume a: "a \<in> set (getRecentActivity games)" and n: "timestamp a = None"
  with recent_activity_members [OF a]
  obtain g where g: "g \<in> set games" "steamPlaytimeRecent g = 0" "a = finished_activity g"
    by (auto simp: activity_fields)
  then show "action a = FinishedGame" by (simp add: activity_fields)
  from g n show "\<exists>g \<in> set games. steamLastPlayed g = None \<and> steamPlaytimeRecent g = 0 \<and> a = finished_activity g"
    by (auto simp: activity_fields)
next
  show "getRecentActivity (filter (\<lambda>g. \<not> (steamLastPlayed g = None \<and> steamPlaytimeRecent g \<noteq> 0)) games)
     = getRecentActivity games"
    by (rule recent_activity_ignores)
next
  show "sorted_wrt (\<lambda>a b. instant_or_zero (timestamp b) \<le> instant_or_zero (timestamp a)) (getRecentActivity games)"
    by (rule recent_activity_sorted)
qed

theorem recent_activity_played_needs_last_played_witness:
  "steamLastPlayed (example_entry 1 None 100 30) = None \<and>
   steamPlaytimeRecent (example_entry 1 None 100 30) = 30 \<and>
   getRecentActivity [example_entry 1 None 100 30, example_entry 2 (Some 50) 100 30]
     = getRecentActivity [example_entry 2 (Some 50) 100 30] \<and>
   map act_id (getRecentActivity [example_entry 1 None 100 30, example_entry 2 (Some 50) 100 30]) = [''played-2'']"
proof -
  have f: "steamLastPlayed (example_entry 1 None 100 30) = None"
    "steamPlaytimeRecent (example_entry 1 None 100 30) = 30"
    "steamLastPlayed (example_entry 2 (Some 50) 100 30) = Some 50"
    by (simp_all add: example_entry_def)
  have e: "map act_id (getRecentActivity [example_entry 2 (Some 50) 100 30]) = [''played-2'']"
    by code_simp
  from recent_activity_played_needs_last_played
    [of "[example_entry 1 None 100 30, example_entry 2 (Some 50) 100 30]", THEN conjunct2, THEN conjunct2,
      THEN conjunct1]
  have "getRecentActivity [example_entry 1 None 100 30, example_entry 2 (Some 50) 100 30]
     = getRecentActivity [example_entry 2 (Some 50) 100 30]"
    by (simp add: f)
  with e f show ?thesis by simp
qed


subsection \<open>Achievement feed\<close>

lemma loop_acc:
  "achievements_loop fetch gs (recent, requested) =
     (recent @ fst (achievements_loop fetch gs ([], [])), requested @ snd (achievements_loop fetch gs ([], [])))"
proof (induction gs arbitrary: recent requested)
  case Nil
  show ?case by simp
next
  case (Cons g gs)
  let ?app = "case game_app_id g of Some n \<Rightarrow> n | None \<Rightarrow> 0"
  show ?case
  proof (cases "truthy_num (game_app_id g)")
    case False
    then show ?thesis using Cons.IH [of recent requested] by simp
  next
    case True
    show ?thesis
    proof (cases "fetch ?app")
      case Failed
      with True show ?thesis
        using Cons.IH [of recent "requested @ [?app]"] Cons.IH [of "[]" "[?app]"] by (simp add: Let_def)
    next
      case NoList
      with True show ?thesis
        using Cons.IH [of recent "requested @ [?app]"] Cons.IH [of "[]" "[?app]"] by (simp add: Let_def)
    next
      case (Achievements as)
      with True show ?thesis
        using Cons.IH [of "recent @ recentUnlocks g ?app as" "requested @ [?app]"]
          Cons.IH [of "recentUnlocks g ?app as" "[?app]"] by (simp add: Let_def)
    qed
  qed
qed

lemma loop_Cons:
  "achievements_loop fetch (g # gs) ([], []) =
     (fst (achievements_loop fetch [g] ([], [])) @ fst (achievements_loop fetch gs ([], [])),
      snd (achievements_loop fetch [g] ([], [])) @ snd (achievements_loop fetch gs ([], [])))"
proof -
  obtain r q where rq: "achievements_loop fetch [g] ([], []) = (r, q)" by (cases "achievements_loop fetch [g] ([], [])")
  have "achievements_loop fetch (g # gs) ([], []) = achievements_loop fetch gs (r, q)"
    using rq by (auto simp: Let_def split: if_splits achievements_response.splits)
  then show ?thesis
    using loop_acc [of fetch gs r q] rq by simp
qed

lemma loop_requested:
  "snd (achievements_loop fetch gs ([], [])) =
     map (\<lambda>g. case game_app_id g of Some n \<Rightarrow> n | None \<Rightarrow> 0) (filter (\<lambda>g. truthy_num (game_app_id g)) gs)"
proof (induction gs)
  case Nil
  show ?case by simp
next
  case (Cons g gs)
  have "snd (achievements_loop fetch [g] ([], [])) =
      (if truthy_num (game_app_id g) then [case game_app_id g of Some n \<Rightarrow> n | None \<Rightarrow> 0] else [])"
    by (simp add: Let_def split: achievements_response.splits)
  then show ?case
    using loop_Cons [of fetch g gs] Cons.IH by simp
qed

lemma loop_members:
  assumes "u \<in> set (fst (achievements_loop fetch gs ([], [])))"
  shows "\<exists>g \<in> set gs. \<exists>as. game_app_id g = Some (gameAppId u) \<and> gameAppId u \<noteq> 0 \<and>
            fetch (gameAppId u) = Achievements as \<and> u \<in> set (recentUnlocks g (gameAppId u) as)"
  using assms
proof (induction gs)
  case Nil
  then show ?case by simp
next
  case (Cons g gs)
  from Cons.prems loop_Cons [of fetch g gs]
  consider "u \<in> set (fst (achievements_loop fetch [g] ([], [])))" | "u \<in> set (fst (achievements_loop fetch gs ([], [])))"
    by auto
  then show ?case
  proof cases
    case 2
    with Cons.IH show ?thesis by auto
  next
    case 1
    then obtain n as where n: "game_app_id g = Some n" "n \<noteq> 0" "fetch n = Achievements as"
      "u \<in> set (recentUnlocks g n as)"
      by (cases "game_app_id g") (auto simp: Let_def split: if_splits achievements_response.splits)
    then have "gameAppId u = n"
      by (auto simp: recentUnlocks_def make_unlocked_def)
    with n show ?thesis by auto
  qed
qed

lemma recent_three_props:
  "length (recent_three as) \<le> 3"
  "set (recent_three as) \<subseteq> {a \<in> set as. achieved a \<and> unlockTime a > 0}"
  "sorted_wrt (\<lambda>a b. unlockTime b \<le> unlockTime a) (recent_three as)"
    by (auto simp: recent_three_def set_sort_desc sort_desc_sorted dest: in_set_takeD)

lemma recent_three_most_recent:
  assumes "a \<in> set as" "achieved a" "unlockTime a > 0" "a \<notin> set (recent_three as)" "k \<in> set (recent_three as)"
  shows "unlockTime a \<le> unlockTime k"
proof -
  let ?s = "sort_desc unlockTime (filter (\<lambda>a. achieved a \<and> unlockTime a > 0) as)"
  have "a \<in> set ?s" using assms(1-3) by (simp add: set_sort_desc)
  then have "a \<in> set (take 3 ?s) \<union> set (drop 3 ?s)"
    by (metis append_take_drop_id set_append)
  with assms(4) have d: "a \<in> set (drop 3 ?s)" by (simp add: recent_three_def)
  have "sorted_wrt (\<lambda>a b. unlockTime b \<le> unlockTime a) (take 3 ?s @ drop 3 ?s)"
    by (simp add: sort_desc_sorted)
  then have "\<forall>x \<in> set (take 3 ?s). \<forall>y \<in> set (drop 3 ?s). unlockTime y \<le> unlockTime x"
    unfolding sorted_wrt_append by blast
  with d assms(5) show ?thesis by (simp add: recent_three_def)
qed

lemma gamesWithStats_props:
  "length (gamesWithStats gs) \<le> 10"
  "set (gamesWithStats gs) \<subseteq> {g \<in> set gs. (any_steamHasStats g \<or> any_hasStats g) \<and> truthy_num (game_app_id g)}"
  by (auto simp: gamesWithStats_def dest: in_set_takeD)

lemma getRecentAchievements_eq:
  "getRecentAchievements fetch gs =
     (take 15 (sort_desc unlockedAt (fst (achievements_loop fetch (gamesWithStats gs) ([], [])))),
      snd (achievements_loop fetch (gamesWithStats gs) ([], [])))"
  by (cases "gs = []") (simp_all add: getRecentAchievements_def gamesWithStats_def sort_desc_Nil split: prod.splits)

lemma loop_concat:
  "fst (achievements_loop fetch gs ([], [])) = concat (map (\<lambda>g. fst (achievements_loop fetch [g] ([], []))) gs)"
proof (induction gs)
  case Nil
  show ?case by simp
next
  case (Cons g gs)
  show ?case using loop_Cons [of fetch g gs] Cons.IH by simp
qed

lemma loop_single:
  "fst (achievements_loop fetch [g] ([], [])) =
     (if truthy_num (game_app_id g) then
        (case fetch (case game_app_id g of Some n \<Rightarrow> n | None \<Rightarrow> 0) of
           Achievements as \<Rightarrow> recentUnlocks g (case game_app_id g of Some n \<Rightarrow> n | None \<Rightarrow> 0) as
         | _ \<Rightarrow> [])
      else [])"
  by (simp add: Let_def split: achievements_response.splits)

text \<open>The selection, the caps and the order of the feed.\<close>

lemma recent_achievements_bounds:
  "length (gamesWithStats steamGames) \<le> 10 \<and>
   (\<forall>g \<in> set (gamesWithStats steamGames).
      g \<in> set steamGames \<and> (any_steamHasStats g \<or> any_hasStats g) \<and> truthy_num (game_app_id g)) \<and>
   snd (getRecentAchievements fetch steamGames) =
     map (\<lambda>g. case game_app_id g of Some n \<Rightarrow> n | None \<Rightarrow> 0) (gamesWithStats steamGames) \<and>
   length (snd (getRecentAchievements fetch steamGames)) \<le> 10 \<and>
   fst (getRecentAchievements fetch steamGames) =
     take 15 (sort_desc unlockedAt
       (concat (map (\<lambda>g. fst (achievements_loop fetch [g] ([], []))) (gamesWithStats steamGames)))) \<and>
   (\<forall>g. length (fst (achievements_loop fetch [g] ([], []))) \<le> 3 \<and>
        (\<forall>u \<in> set (fst (achievements_loop fetch [g] ([], []))).
           \<exists>as. fetch (gameAppId u) = Achievements as \<and> game_app_id g = Some (gameAppId u) \<and>
             (\<exists>a \<in> set (recent_three as). u = make_unlocked g (gameAppId u) a \<and>
                a \<in> set as \<and> achieved a \<and> unlockTime a \<noteq> 0))) \<and>
   (\<forall>as. sorted_wrt (\<lambda>a b. unlockTime b \<le> unlockTime a) (recent_three as) \<and>
         (\<forall>a \<in> set as. \<forall>k \<in> set (recent_three as).
            achieved a \<and> unlockTime a > 0 \<and> a \<notin> set (recent_three as) \<longrightarrow> unlockTime a \<le> unlockTime k)) \<and>
   (\<forall>g. (\<forall>as. fetch (case game_app_id g of Some n \<Rightarrow> n | None \<Rightarrow> 0) \<noteq> Achievements as) \<longrightarrow>
        fst (achievements_loop fetch [g] ([], [])) = []) \<and>
   length (fst (getRecentAchievements fetch steamGames)) \<le> 15 \<and>
   sorted_wrt (\<lambda>a b. unlockedAt b \<le> unlockedAt a) (fst (getRecentAchievements fetch steamGames))"
proof (intro conjI allI ballI impI)
  show "length (gamesWithStats steamGames) \<le> 10"
    by (rule gamesWithStats_props)
  show req: "snd (getRecentAchievements fetch steamGames) =
     map (\<lambda>g. case game_app_id g of Some n \<Rightarrow> n | None \<Rightarrow> 0) (gamesWithStats steamGames)"
  proof -
    have "filter (\<lambda>g. truthy_num (game_app_id g)) (gamesWithStats steamGames) = gamesWithStats steamGames"
      using gamesWithStats_props(2) [of steamGames] by (auto intro!: filter_True)
    then show ?thesis
      by (simp add: getRecentAchievements_eq loop_requested)
  qed
  show "length (snd (getRecentAchievements fetch steamGames)) \<le> 10"
    unfolding req using gamesWithStats_props(1) [of steamGames] by simp
  show "fst (getRecentAchievements fetch steamGames) =
     take 15 (sort_desc unlockedAt
       (concat (map (\<lambda>g. fst (achievements_loop fetch [g] ([], []))) (gamesWithStats steamGames))))"
    by (simp add: getRecentAchievements_eq loop_concat [of fetch "gamesWithStats steamGames"])
  show "length (fst (getRecentAchievements fetch steamGames)) \<le> 15"
    by (simp add: getRecentAchievements_eq)
  show "sorted_wrt (\<lambda>a b. unlockedAt b \<le> unlockedAt a) (fst (getRecentAchievements fetch steamGames))"
    by (simp add: getRecentAchievements_eq sort_desc_sorted)
next
  fix g assume "g \<in> set (gamesWithStats steamGames)"
  with gamesWithStats_props(2) [of steamGames]
  have "g \<in> set steamGames \<and> (any_steamHasStats g \<or> any_hasStats g) \<and> truthy_num (game_app_id g)"
    by auto
  then show "g \<in> set steamGames" "any_steamHasStats g \<or> any_hasStats g" "truthy_num (game_app_id g)"
    by simp_all
next
  fix g
  show "length (fst (achievements_loop fetch [g] ([], []))) \<le> 3"
    unfolding loop_single using recent_three_props(1)
    by (simp add: recentUnlocks_def split: achievements_response.splits)
next
  fix g u assume "u \<in> set (fst (achievements_loop fetch [g] ([], [])))"
  from loop_members [OF this]
  obtain as where as: "game_app_id g = Some (gameAppId u)" "fetch (gameAppId u) = Achievements as"
    "u \<in> set (recentUnlocks g (gameAppId u) as)" by auto
  then obtain a where a: "a \<in> set (recent_three as)" "u = make_unlocked g (gameAppId u) a"
    by (auto simp: recentUnlocks_def)
  with recent_three_props(2) [of as] have "a \<in> set as \<and> achieved a \<and> unlockTime a \<noteq> 0" by auto
  with as a show "\<exists>as. fetch (gameAppId u) = Achievements as \<and> game_app_id g = Some (gameAppId u) \<and>
             (\<exists>a \<in> set (recent_three as). u = make_unlocked g (gameAppId u) a \<and>
                a \<in> set as \<and> achieved a \<and> unlockTime a \<noteq> 0)"
    by blast
next
  fix as
  show "sorted_wrt (\<lambda>a b. unlockTime b \<le> unlockTime a) (recent_three as)"
    by (rule recent_three_props)
next
  fix as a k
  assume "a \<in> set as" "k \<in> set (recent_three as)"
    "achieved a \<and> unlockTime a > 0 \<and> a \<notin> set (recent_three as)"
  then show "unlockTime a \<le> unlockTime k"
    using recent_three_most_recent [of a as k] by simp
next
  fix g
  assume "\<forall>as. fetch (case game_app_id g of Some n \<Rightarrow> n | None \<Rightarrow> 0) \<noteq> Achievements as"
  then show "fst (achievements_loop fetch [g] ([], [])) = []"
    unfolding loop_single by (simp split: achievements_response.splits)
qed

lemma recent_three_length:
  "length (recent_three as) = min 3 (length (filter (\<lambda>a. achieved a \<and> unlockTime a > 0) as))"
  by (simp add: recent_three_def sort_desc_def)

lemma recent_three_mset:
  "mset (recent_three as) \<subseteq># mset (filter (\<lambda>a. achieved a \<and> unlockTime a > 0) as)"
proof -
  let ?s = "sort_desc unlockTime (filter (\<lambda>a. achieved a \<and> unlockTime a > 0) as)"
  have "mset ?s = mset (take 3 ?s) + mset (drop 3 ?s)"
    by (metis append_take_drop_id mset_append)
  moreover have "mset ?s = mset (filter (\<lambda>a. achieved a \<and> unlockTime a > 0) as)"
    by (simp add: sort_desc_def)
  ultimately show ?thesis
    by (simp add: recent_three_def)
qed

lemma recent_three_rest:
  assumes "a \<in># mset (filter (\<lambda>a. achieved a \<and> unlockTime a > 0) as) - mset (recent_three as)"
    and "k \<in> set (recent_three as)"
  shows "unlockTime a \<le> unlockTime k"
proof -
  let ?s = "sort_desc unlockTime (filter (\<lambda>a. achieved a \<and> unlockTime a > 0) as)"
  have "mset ?s = mset (take 3 ?s) + mset (drop 3 ?s)"
    by (metis append_take_drop_id mset_append)
  moreover have "mset ?s = mset (filter (\<lambda>a. achieved a \<and> unlockTime a > 0) as)"
    by (simp add: sort_desc_def)
  ultimately have "mset (filter (\<lambda>a. achieved a \<and> unlockTime a > 0) as) - mset (recent_three as)
      = mset (drop 3 ?s)"
    by (simp add: recent_three_def)
  with assms(1) have d: "a \<in> set (drop 3 ?s)" by simp
  have "sorted_wrt (\<lambda>a b. unlockTime b \<le> unlockTime a) (take 3 ?s @ drop 3 ?s)"
    by (simp add: sort_desc_sorted)
  then have "\<forall>x \<in> set (take 3 ?s). \<forall>y \<in> set (drop 3 ?s). unlockTime y \<le> unlockTime x"
    unfolding sorted_wrt_append by blast
  with d assms(2) show ?thesis by (simp add: recent_three_def)
qed

lemma loop_single_success:
  assumes "game_app_id g = Some n" "n \<noteq> 0" "fetch n = Achievements as"
  shows "achievements_loop fetch [g] ([], []) = (map (make_unlocked g n) (recent_three as), [n])"
  using assms by (simp add: Let_def recentUnlocks_def)

text \<open>
  Claim C7. \<open>getRecentAchievements\<close> selects the first 10 games that report statistics
  and have an identifier (all of them when there are fewer), and requests achievements
  for exactly those, whatever the answers are; the feed is the 15 newest of the per-game contributions, newest first.
  A game whose request succeeds contributes exactly its 3 most recent achievements that
  are achieved with a positive unlock time (all of them when there are fewer than 3),
  each turned into a feed item: the kept ones are a sub-multiset of the eligible ones,
  in number the minimum of 3 and the eligible count, newest first, and no eligible
  achievement left out is more recent than a kept one. A game whose request fails
  contributes nothing, and the other contributions are unaffected.
\<close>

theorem recent_achievements_spec:
  "length (gamesWithStats steamGames) =
     min 10 (length (filter (\<lambda>g. (any_steamHasStats g \<or> any_hasStats g) \<and> truthy_num (game_app_id g)) steamGames)) \<and>
   (\<exists>rest. filter (\<lambda>g. (any_steamHasStats g \<or> any_hasStats g) \<and> truthy_num (game_app_id g)) steamGames
              = gamesWithStats steamGames @ rest) \<and>
   (\<forall>g n as. game_app_id g = Some n \<and> n \<noteq> 0 \<and> fetch n = Achievements as \<longrightarrow>
      fst (achievements_loop fetch [g] ([], [])) = map (make_unlocked g n) (recent_three as)) \<and>
   (\<forall>as. length (recent_three as) = min 3 (length (filter (\<lambda>a. achieved a \<and> unlockTime a > 0) as)) \<and>
         mset (recent_three as) \<subseteq># mset (filter (\<lambda>a. achieved a \<and> unlockTime a > 0) as) \<and>
         (\<forall>a k. a \<in># mset (filter (\<lambda>a. achieved a \<and> unlockTime a > 0) as) - mset (recent_three as) \<and>
                k \<in> set (recent_three as) \<longrightarrow> unlockTime a \<le> unlockTime k)) \<and>
   length (gamesWithStats steamGames) \<le> 10 \<and>
   (\<forall>g \<in> set (gamesWithStats steamGames).
      g \<in> set steamGames \<and> (any_steamHasStats g \<or> any_hasStats g) \<and> truthy_num (game_app_id g)) \<and>
   snd (getRecentAchievements fetch steamGames) =
     map (\<lambda>g. case game_app_id g of Some n \<Rightarrow> n | None \<Rightarrow> 0) (gamesWithStats steamGames) \<and>
   length (snd (getRecentAchievements fetch steamGames)) \<le> 10 \<and>
   fst (getRecentAchievements fetch steamGames) =
     take 15 (sort_desc unlockedAt
       (concat (map (\<lambda>g. fst (achievements_loop fetch [g] ([], []))) (gamesWithStats steamGames)))) \<and>
   (\<forall>g. length (fst (achievements_loop fetch [g] ([], []))) \<le> 3 \<and>
        (\<forall>u \<in> set (fst (achievements_loop fetch [g] ([], []))).
           \<exists>as. fetch (gameAppId u) = Achievements as \<and> game_app_id g = Some (gameAppId u) \<and>
             (\<exists>a \<in> set (recent_three as). u = make_unlocked g (gameAppId u) a \<and>
                a \<in> set as \<and> achieved a \<and> unlockTime a \<noteq> 0))) \<and>
   (\<forall>as. sorted_wrt (\<lambda>a b. unlockTime b \<le> unlockTime a) (recent_three as) \<and>
         (\<forall>a \<in> set as. \<forall>k \<in> set (recent_three as).
            achieved a \<and> unlockTime a > 0 \<and> a \<notin> set (recent_three as) \<longrightarrow> unlockTime a \<le> unlockTime k)) \<and>
   (\<forall>g. (\<forall>as. fetch (case game_app_id g of Some n \<Rightarrow> n | None \<Rightarrow> 0) \<noteq> Achievements as) \<longrightarrow>
        fst (achievements_loop fetch [g] ([], [])) = []) \<and>
   length (fst (getRecentAchievements fetch steamGames)) \<le> 15 \<and>
   sorted_wrt (\<lambda>a b. unlockedAt b \<le> unlockedAt a) (fst (getRecentAchievements fetch steamGames))"
proof -
  have n1: "\<forall>g n as. game_app_id g = Some n \<and> n \<noteq> 0 \<and> fetch n = Achievements as \<longrightarrow>
      fst (achievements_loop fetch [g] ([], [])) = map (make_unlocked g n) (recent_three as)"
  proof (intro allI impI)
    fix g n as
    assume "game_app_id g = Some n \<and> n \<noteq> 0 \<and> fetch n = Achievements as"
    then have "achievements_loop fetch [g] ([], []) = (map (make_unlocked g n) (recent_three as), [n])"
      by (intro loop_single_success) simp_all
    then show "fst (achievements_loop fetch [g] ([], [])) = map (make_unlocked g n) (recent_three as)"
      by simp
  qed
  have n2: "\<forall>as. length (recent_three as) = min 3 (length (filter (\<lambda>a. achieved a \<and> unlockTime a > 0) as)) \<and>
         mset (recent_three as) \<subseteq># mset (filter (\<lambda>a. achieved a \<and> unlockTime a > 0) as) \<and>
         (\<forall>a k. a \<in># mset (filter (\<lambda>a. achieved a \<and> unlockTime a > 0) as) - mset (recent_three as) \<and>
                k \<in> set (recent_three as) \<longrightarrow> unlockTime a \<le> unlockTime k)"
  proof (intro allI conjI impI)
    fix as
    show "length (recent_three as) = min 3 (length (filter (\<lambda>a. achieved a \<and> unlockTime a > 0) as))"
      by (rule recent_three_length)
    show "mset (recent_three as) \<subseteq># mset (filter (\<lambda>a. achieved a \<and> unlockTime a > 0) as)"
      by (rule recent_three_mset)
    fix a k
    assume "a \<in># mset (filter (\<lambda>a. achieved a \<and> unlockTime a > 0) as) - mset (recent_three as) \<and>
                k \<in> set (recent_three as)"
    then show "unlockTime a \<le> unlockTime k"
      using recent_three_rest [of a as k] by simp
  qed
  have n3: "length (gamesWithStats steamGames) =
     min 10 (length (filter (\<lambda>g. (any_steamHasStats g \<or> any_hasStats g) \<and> truthy_num (game_app_id g)) steamGames))"
    by (simp add: gamesWithStats_def)
  have n4: "\<exists>rest. filter (\<lambda>g. (any_steamHasStats g \<or> any_hasStats g) \<and> truthy_num (game_app_id g)) steamGames
              = gamesWithStats steamGames @ rest"
    unfolding gamesWithStats_def
    by (rule exI [of _ "drop 10 (filter (\<lambda>g. (any_steamHasStats g \<or> any_hasStats g) \<and> truthy_num (game_app_id g)) steamGames)"])
      simp
  show ?thesis
    by (rule conjI [OF n3 conjI [OF n4 conjI [OF n1 conjI [OF n2 recent_achievements_bounds]]]])
qed

theorem recent_achievements_spec_witness:
  "length example_eleven = 11 \<and>
   snd (getRecentAchievements example_fetch example_eleven) = [1, 2, 3, 4, 5, 6, 7, 8, 9, 10] \<and>
   fst (achievements_loop example_fetch [example_stats_game 3] ([], [])) = [] \<and>
   map unlockedAt (fst (achievements_loop example_fetch [example_stats_game 1] ([], []))) = [13000, 12000, 11000] \<and>
   map unlockedAt (fst (getRecentAchievements example_fetch example_eleven)) =
     [103000, 102000, 101000, 93000, 92000, 91000, 83000, 82000, 81000, 73000, 72000, 71000,
      63000, 62000, 61000]"
proof -
  have l: "length example_eleven = 11" by (simp add: example_eleven_def)
  have g: "map (\<lambda>g. case game_app_id g of Some n \<Rightarrow> n | None \<Rightarrow> 0) (gamesWithStats example_eleven)
      = [1, 2, 3, 4, 5, 6, 7, 8, 9, 10]"
    by code_simp
  have f: "\<forall>as. example_fetch (case game_app_id (example_stats_game 3) of Some n \<Rightarrow> n | None \<Rightarrow> 0) \<noteq> Achievements as"
    by (simp add: example_fetch_def example_stats_game_def game_app_id_def or_num_def)
  have one: "game_app_id (example_stats_game 1) = Some 1 \<and> (1::int) \<noteq> 0 \<and>
      example_fetch 1 = Achievements
        [example_achievement 10 True, example_achievement 11 True,
         example_achievement 0 True, example_achievement 5 False,
         example_achievement 12 True, example_achievement 13 True]"
    by (simp add: example_fetch_def example_stats_game_def game_app_id_def or_num_def)
  have three: "map unlockedAt (map (make_unlocked (example_stats_game 1) 1)
      (recent_three [example_achievement 10 True, example_achievement 11 True,
         example_achievement 0 True, example_achievement 5 False,
         example_achievement 12 True, example_achievement 13 True])) = [13000, 12000, 11000]"
    by code_simp
  have feed: "map unlockedAt (take 15 (sort_desc unlockedAt
       (concat (map (\<lambda>g. fst (achievements_loop example_fetch [g] ([], []))) (gamesWithStats example_eleven))))) =
     [103000, 102000, 101000, 93000, 92000, 91000, 83000, 82000, 81000, 73000, 72000, 71000,
      63000, 62000, 61000]"
    by code_simp
  note T = recent_achievements_spec [of example_eleven example_fetch]
  note new = T [THEN conjunct2, THEN conjunct2]
  note old = new [THEN conjunct2, THEN conjunct2]
  have a: "snd (getRecentAchievements example_fetch example_eleven) = [1, 2, 3, 4, 5, 6, 7, 8, 9, 10]"
    using old [THEN conjunct2, THEN conjunct2, THEN conjunct1] g by simp
  have b: "fst (achievements_loop example_fetch [example_stats_game 3] ([], [])) = []"
    by (rule old [THEN conjunct2, THEN conjunct2, THEN conjunct2, THEN conjunct2, THEN conjunct2,
          THEN conjunct2, THEN conjunct2, THEN conjunct1, rule_format]) (rule f [rule_format])
  have c: "map unlockedAt (fst (achievements_loop example_fetch [example_stats_game 1] ([], []))) = [13000, 12000, 11000]"
    using new [THEN conjunct1, rule_format, OF one] three by simp
  have d: "map unlockedAt (fst (getRecentAchievements example_fetch example_eleven)) =
     [103000, 102000, 101000, 93000, 92000, 91000, 83000, 82000, 81000, 73000, 72000, 71000,
      63000, 62000, 61000]"
    using old [THEN conjunct2, THEN conjunct2, THEN conjunct2, THEN conjunct2, THEN conjunct1] feed by simp
  from l a b c d show ?thesis by (intro conjI)
qed

subsection \<open>The cache\<close>

lemma getCachedData_cases:
  "getCachedData now key maxAge ls =
     (if \<exists>d stamp. ls key = Some (Envelope d stamp) \<and> older_than (now - stamp) maxAge
      then (None, ls(key := None))
      else (case ls key of Some (Envelope d stamp) \<Rightarrow> Some d | _ \<Rightarrow> None, ls))"
  by (auto simp: getCachedData_def split: option.splits cache_item.splits)

text \<open>
  Claim C5, as stated: a get whose record is older than the TTL reports it absent and
  leaves the stored record in place. It fails: for the trending list captured at time 0
  and read one millisecond after its six hours, the get returns nothing and the key is
  gone from the store.
\<close>

theorem getCachedData_deletes_stale_counterexample:
  "trending_games example_stale_catalog (trending_key 10) = Some (Envelope [example_catalog_entry] 0) \<and>
   fst (getCachedData 21600001 (trending_key 10) (Millis CACHE_DURATION_TRENDING)
          (trending_games example_stale_catalog)) = None \<and>
   snd (getCachedData 21600001 (trending_key 10) (Millis CACHE_DURATION_TRENDING)
          (trending_games example_stale_catalog)) (trending_key 10) = None"
  by (simp add: getCachedData_def example_stale_catalog_def example_empty_catalog_def
      CACHE_DURATION_TRENDING_def)

text \<open>
  Claim C5, amended. A get whose record is older than the given TTL reports the record
  absent and removes that record from the store; a get that finds no record, an
  undecodable one or one within the TTL leaves the store as it is, and no get touches
  another key.
\<close>

theorem getCachedData_evicts_stale:
  "(\<forall>d stamp. ls key = Some (Envelope d stamp) \<and> now - stamp > ttl \<longrightarrow>
      getCachedData now key (Millis ttl) ls = (None, ls(key := None))) \<and>
   (\<not> (\<exists>d stamp. ls key = Some (Envelope d stamp) \<and> now - stamp > ttl) \<longrightarrow>
      snd (getCachedData now key (Millis ttl) ls) = ls) \<and>
   (\<forall>k. k \<noteq> key \<longrightarrow> snd (getCachedData now key maxAge ls) k = ls k)"
  by (auto simp: getCachedData_cases)

theorem getCachedData_evicts_stale_witness:
  "trending_games example_stale_catalog (trending_key 10) = Some (Envelope [example_catalog_entry] 0) \<and>
   (21600001::int) - 0 > 21600000 \<and>
   getCachedData 21600001 (trending_key 10) (Millis 21600000) (trending_games example_stale_catalog)
     = (None, (trending_games example_stale_catalog)(trending_key 10 := None))"
proof -
  have h: "trending_games example_stale_catalog (trending_key 10) = Some (Envelope [example_catalog_entry] 0)"
    by (simp add: example_stale_catalog_def example_empty_catalog_def)
  have a: "(21600001::int) - 0 > 21600000" by simp
  have "getCachedData 21600001 (trending_key 10) (Millis 21600000) (trending_games example_stale_catalog)
        = (None, (trending_games example_stale_catalog)(trending_key 10 := None))"
    by (rule getCachedData_evicts_stale [THEN conjunct1, rule_format]) (intro conjI, rule h, rule a)
  with h a show ?thesis by (intro conjI)
qed




subsection \<open>The catalog client\<close>

lemma getGameDetails_network:
  "\<exists>rest. network (snd (getGameDetails env now app st)) = network st @ rest"
  by (auto simp: getGameDetails_def sent_def Let_def
      split: prod.splits option.splits http_result.splits)

lemma enrich_props:
  "length (fst (enrichGameData env now gs st)) = length gs \<and>
   (\<exists>rest. network (snd (enrichGameData env now gs st)) = network st @ rest)"
proof (induction gs arbitrary: st)
  case Nil
  show ?case by simp
next
  case (Cons g gs)
  obtain d st1 where d: "getGameDetails env now (raw_appid g) st = (d, st1)"
    by (cases "getGameDetails env now (raw_appid g) st")
  obtain rest st2 where r: "enrichGameData env now gs st1 = (rest, st2)"
    by (cases "enrichGameData env now gs st1")
  from getGameDetails_network [of env now "raw_appid g" st] d
  obtain n1 where n1: "network st1 = network st @ n1" by auto
  from Cons.IH [of st1] r
  obtain n2 where n2: "length rest = length gs" "network st2 = network st1 @ n2" by auto
  show ?case
    using d r n1 n2 by simp
qed

lemma slice0_nonpositive:
  "limit \<le> 0 \<Longrightarrow> length (slice0 limit xs) = (if limit = 0 then 0 else length xs - nat (- limit))"
  by (auto simp: slice0_def)

lemma trending_miss:
  assumes "forceRefresh \<or>
      fst (getCachedData now (trending_key limit) (Millis CACHE_DURATION_TRENDING) (trending_games st)) = None"
  shows "\<exists>st1. network st1 = network st \<and>
     getTrendingGames env now limit forceRefresh st =
       (case most_played env of
          Json (Some ranks) \<Rightarrow>
            (let (gs, st3) = enrichGameData env now (map trending_raw (slice0 limit ranks)) (sent GetMostPlayedGames st1)
             in (gs, st3\<lparr> trending_games := cacheData (write_throws env (trending_key limit)) now (trending_key limit) gs (trending_games st3) \<rparr>))
        | _ \<Rightarrow> trending_fallback now (trending_key limit) (sent GetMostPlayedGames st1))"
proof (cases forceRefresh)
  case True
  then show ?thesis
    by (intro exI [of _ st]) (simp add: getTrendingGames_def Let_def split: http_result.splits option.splits)
next
  case False
  with assms obtain ls where "getCachedData now (trending_key limit) (Millis CACHE_DURATION_TRENDING) (trending_games st) = (None, ls)"
    by (cases "getCachedData now (trending_key limit) (Millis CACHE_DURATION_TRENDING) (trending_games st)") auto
  with False show ?thesis
    by (intro exI [of _ "st\<lparr> trending_games := ls \<rparr>"])
      (simp add: getTrendingGames_def Let_def split: http_result.splits option.splits)
qed

lemma trending_fallback_network: "network (snd (trending_fallback now key st)) = network st"
  by (simp add: trending_fallback_def split: prod.splits)

lemma trending_miss_props:
  assumes "forceRefresh \<or>
      fst (getCachedData now (trending_key limit) (Millis CACHE_DURATION_TRENDING) (trending_games st)) = None"
  shows "(\<exists>rest. network (snd (getTrendingGames env now limit forceRefresh st)) = network st @ GetMostPlayedGames # rest)"
    and "most_played env = Json (Some ranks) \<Longrightarrow>
           length (fst (getTrendingGames env now limit forceRefresh st)) = length (slice0 limit ranks)"
proof -
  from trending_miss [OF assms, of env]
  obtain st1 where st1: "network st1 = network st"
    "getTrendingGames env now limit forceRefresh st =
       (case most_played env of
          Json (Some ranks) \<Rightarrow>
            (let (gs, st3) = enrichGameData env now (map trending_raw (slice0 limit ranks)) (sent GetMostPlayedGames st1)
             in (gs, st3\<lparr> trending_games := cacheData (write_throws env (trending_key limit)) now (trending_key limit) gs (trending_games st3) \<rparr>))
        | _ \<Rightarrow> trending_fallback now (trending_key limit) (sent GetMostPlayedGames st1))"
    by blast
  have s: "network (sent GetMostPlayedGames st1) = network st @ [GetMostPlayedGames]"
    using st1(1) by (simp add: sent_def)
  show "\<exists>rest. network (snd (getTrendingGames env now limit forceRefresh st)) = network st @ GetMostPlayedGames # rest"
  proof (cases "\<exists>ranks. most_played env = Json (Some ranks)")
    case True
    then obtain ranks where ranks: "most_played env = Json (Some ranks)" by blast
    obtain gs st3 where e: "enrichGameData env now (map trending_raw (slice0 limit ranks)) (sent GetMostPlayedGames st1) = (gs, st3)"
      by (cases "enrichGameData env now (map trending_raw (slice0 limit ranks)) (sent GetMostPlayedGames st1)")
    from enrich_props [of env now "map trending_raw (slice0 limit ranks)" "sent GetMostPlayedGames st1"] e s
    obtain rest where "network st3 = network st @ GetMostPlayedGames # rest" by auto
    then show ?thesis
      using st1(2) ranks e by simp
  next
    case False
    then have "getTrendingGames env now limit forceRefresh st
        = trending_fallback now (trending_key limit) (sent GetMostPlayedGames st1)"
      using st1(2) by (auto split: http_result.splits option.splits)
    then show ?thesis
      using s by (simp add: trending_fallback_network)
  qed
  show "length (fst (getTrendingGames env now limit forceRefresh st)) = length (slice0 limit ranks)"
    if ranks: "most_played env = Json (Some ranks)"
  proof -
    obtain gs st3 where e: "enrichGameData env now (map trending_raw (slice0 limit ranks)) (sent GetMostPlayedGames st1) = (gs, st3)"
      by (cases "enrichGameData env now (map trending_raw (slice0 limit ranks)) (sent GetMostPlayedGames st1)")
    from enrich_props [of env now "map trending_raw (slice0 limit ranks)" "sent GetMostPlayedGames st1"] e
    have "length gs = length (slice0 limit ranks)" by simp
    then show ?thesis using st1(2) ranks e by simp
  qed
qed

lemma search_miss_props:
  assumes "fst (getCachedData now (search_key query limit page) (Millis CACHE_DURATION_SEARCH) (search_results st)) = None"
  shows "(\<exists>rest. network (snd (searchGames env now query limit page st)) = network st @ StoreSearch query limit # rest)"
    and "storesearch env query limit = Json (Some (items, tot)) \<Longrightarrow>
           length (result_games (fst (searchGames env now query limit page st))) = length items"
proof -
  from assms obtain ls where c: "getCachedData now (search_key query limit page) (Millis CACHE_DURATION_SEARCH) (search_results st) = (None, ls)"
    by (cases "getCachedData now (search_key query limit page) (Millis CACHE_DURATION_SEARCH) (search_results st)") auto
  let ?st2 = "sent (StoreSearch query limit) (st\<lparr> search_results := ls \<rparr>)"
  have s: "network ?st2 = network st @ [StoreSearch query limit]"
    by (simp add: sent_def)
  show "\<exists>rest. network (snd (searchGames env now query limit page st)) = network st @ StoreSearch query limit # rest"
  proof (cases "\<exists>items tot. storesearch env query limit = Json (Some (items, tot))")
    case True
    then obtain items tot where i: "storesearch env query limit = Json (Some (items, tot))" by blast
    obtain gs st3 where e: "enrichGameData env now items ?st2 = (gs, st3)"
      by (cases "enrichGameData env now items ?st2")
    from enrich_props [of env now items ?st2] e s
    obtain rest where "network st3 = network st @ StoreSearch query limit # rest" by auto
    then show ?thesis
      using c i e by (simp add: searchGames_def Let_def)
  next
    case False
    then have "snd (searchGames env now query limit page st) = ?st2"
      using c by (auto simp: searchGames_def Let_def split: http_result.splits option.splits)
    then show ?thesis using s by simp
  qed
  show "length (result_games (fst (searchGames env now query limit page st))) = length items"
    if i: "storesearch env query limit = Json (Some (items, tot))"
  proof -
    obtain gs st3 where e: "enrichGameData env now items ?st2 = (gs, st3)"
      by (cases "enrichGameData env now items ?st2")
    from enrich_props [of env now items ?st2] e have "length gs = length items" by simp
    then show ?thesis using c i e by (simp add: searchGames_def Let_def)
  qed
qed

text \<open>
  What \<open>getTrendingGames\<close> returns when the request fails in any way: the cached list,
  unless the call is not forced and the record has expired, in which case the first read
  has evicted it.
\<close>

lemma trending_failure:
  assumes "\<forall>ranks. most_played env \<noteq> Json (Some ranks)"
  shows "fst (getTrendingGames env now limit forceRefresh st) =
     (case trending_games st (trending_key limit) of
        Some (Envelope gs stamp) \<Rightarrow>
          if \<not> forceRefresh \<and> now - stamp > CACHE_DURATION_TRENDING then [] else gs
      | _ \<Rightarrow> [])"
proof (cases "trending_games st (trending_key limit)")
  case None
  with assms show ?thesis
    by (cases "most_played env")
      (auto simp: getTrendingGames_def trending_fallback_def getCachedData_def sent_def Let_def
        split: option.splits)
next
  case (Some item)
  show ?thesis
  proof (cases item)
    case Undecodable
    with Some assms show ?thesis
      by (cases "most_played env")
        (auto simp: getTrendingGames_def trending_fallback_def getCachedData_def sent_def Let_def
          split: option.splits)
  next
    case (Envelope gs stamp)
    with Some assms show ?thesis
      by (cases "most_played env")
        (auto simp: getTrendingGames_def trending_fallback_def getCachedData_def sent_def Let_def
          split: option.splits)
  qed
qed

text \<open>
  Claim C4 says that a failed fetch falls back to whatever cached record exists, however
  stale. With a trending list for limit 10 captured at time 0, a call one millisecond
  after its six hours, not forced, upstream down: the first cache read has removed the
  expired record before the request is made, so the fallback finds nothing and the call
  returns the empty list; the same call with a forced refresh skips the first read and
  returns the stale list.
\<close>

theorem trending_stale_fallback_lost:
  "trending_games example_stale_catalog (trending_key 10) = Some (Envelope [example_catalog_entry] 0) \<and>
   most_played example_offline = Rejected \<and>
   fst (getTrendingGames example_offline 21600001 10 False example_stale_catalog) = [] \<and>
   trending_games (snd (getTrendingGames example_offline 21600001 10 False example_stale_catalog)) (trending_key 10)
     = None \<and>
   fst (getTrendingGames example_offline 21600001 10 True example_stale_catalog) = [example_catalog_entry]"
  by code_simp

text \<open>
  Claim C8, as stated: for a zero or negative limit the catalog operations return an
  empty result and send no request. It fails: with an empty cache, \<open>getTrendingGames\<close>
  with limit -1 requests the ranking, cuts the last of its two ranks and returns the
  other one; with limit 0 it still sends the request; and \<open>searchGames\<close> with limit 0
  sends the search and returns the item that upstream answers.
\<close>

theorem nonpositive_limit_unguarded_counterexample:
  "map db_appid (fst (getTrendingGames example_online 5 (- 1) False example_empty_catalog)) = [730] \<and>
   network (snd (getTrendingGames example_online 5 (- 1) False example_empty_catalog))
     = [GetMostPlayedGames, AppDetails 730] \<and>
   network (snd (getTrendingGames example_online 5 0 False example_empty_catalog)) = [GetMostPlayedGames] \<and>
   map db_appid (result_games (fst (searchGames example_online 5 ''tf'' 0 1 example_empty_catalog))) = [440] \<and>
   network (snd (searchGames example_online 5 ''tf'' 0 1 example_empty_catalog))
     = [StoreSearch ''tf'' 0, AppDetails 440]"
  by code_simp

lemma search_miss_failure:
  assumes "fst (getCachedData now (search_key query limit page) (Millis CACHE_DURATION_SEARCH) (search_results st)) = None"
    and "\<forall>items tot. storesearch env query limit \<noteq> Json (Some (items, tot))"
  shows "fst (searchGames env now query limit page st) =
           \<lparr> result_games = [], result_total = 0, result_page = page, result_limit = limit \<rparr>"
proof -
  from assms(1) obtain ls where c: "getCachedData now (search_key query limit page) (Millis CACHE_DURATION_SEARCH) (search_results st) = (None, ls)"
    by (cases "getCachedData now (search_key query limit page) (Millis CACHE_DURATION_SEARCH) (search_results st)") auto
  show ?thesis
    using c assms(2) by (auto simp: searchGames_def Let_def split: http_result.splits option.splits)
qed

text \<open>
  Claim C8, amended. The limit is not guarded. For a zero or negative limit, whenever
  the cache gives no fresh record (or the refresh is forced) \<open>getTrendingGames\<close> sends the
  ranking request, and on a successful answer returns as many entries as
  \<^verbatim>\<open>slice(0, limit)\<close> keeps of the ranks: none for limit 0, all but the last \<open>-limit\<close> for
  a negative limit. On a cache miss \<open>searchGames\<close> sends the search with the limit as its
  count and returns one entry per item that upstream answers, or the empty result when
  the request fails. Every failure is a value of the result: neither operation throws.
\<close>

theorem nonpositive_limit_unguarded:
  assumes "limit \<le> 0"
  shows
   "(forceRefresh \<or>
     fst (getCachedData now (trending_key limit) (Millis CACHE_DURATION_TRENDING) (trending_games st)) = None \<longrightarrow>
       (\<exists>rest. network (snd (getTrendingGames env now limit forceRefresh st))
                  = network st @ GetMostPlayedGames # rest) \<and>
       (\<forall>ranks. most_played env = Json (Some ranks) \<longrightarrow>
          length (fst (getTrendingGames env now limit forceRefresh st))
            = (if limit = 0 then 0 else length ranks - nat (- limit)))) \<and>
    (fst (getCachedData now (search_key query limit page) (Millis CACHE_DURATION_SEARCH) (search_results st)) = None \<longrightarrow>
       (\<exists>rest. network (snd (searchGames env now query limit page st))
                  = network st @ StoreSearch query limit # rest) \<and>
       (\<forall>items tot. storesearch env query limit = Json (Some (items, tot)) \<longrightarrow>
          length (result_games (fst (searchGames env now query limit page st))) = length items) \<and>
       ((\<forall>items tot. storesearch env query limit \<noteq> Json (Some (items, tot))) \<longrightarrow>
          fst (searchGames env now query limit page st)
            = \<lparr> result_games = [], result_total = 0, result_page = page, result_limit = limit \<rparr>))"
proof (intro conjI impI allI)
  assume m: "forceRefresh \<or>
     fst (getCachedData now (trending_key limit) (Millis CACHE_DURATION_TRENDING) (trending_games st)) = None"
  show "\<exists>rest. network (snd (getTrendingGames env now limit forceRefresh st))
                  = network st @ GetMostPlayedGames # rest"
    by (rule trending_miss_props(1) [OF m])
  fix ranks assume "most_played env = Json (Some ranks)"
  from trending_miss_props(2) [OF m this]
  show "length (fst (getTrendingGames env now limit forceRefresh st))
            = (if limit = 0 then 0 else length ranks - nat (- limit))"
    using slice0_nonpositive [OF assms, of ranks] by simp
next
  assume m: "fst (getCachedData now (search_key query limit page) (Millis CACHE_DURATION_SEARCH) (search_results st)) = None"
  show "\<exists>rest. network (snd (searchGames env now query limit page st))
                  = network st @ StoreSearch query limit # rest"
    by (rule search_miss_props(1) [OF m])
  show "length (result_games (fst (searchGames env now query limit page st))) = length items"
    if "storesearch env query limit = Json (Some (items, tot))" for items tot
    by (rule search_miss_props(2) [OF m that])
  show "fst (searchGames env now query limit page st)
            = \<lparr> result_games = [], result_total = 0, result_page = page, result_limit = limit \<rparr>"
    if "\<forall>items tot. storesearch env query limit \<noteq> Json (Some (items, tot))"
    by (rule search_miss_failure [OF m that])
qed

theorem nonpositive_limit_unguarded_witness:
  "(- 1 :: int) \<le> 0 \<and>
   fst (getCachedData 5 (trending_key (- 1)) (Millis CACHE_DURATION_TRENDING) (trending_games example_empty_catalog)) = None \<and>
   most_played example_online = Json (Some example_ranks) \<and>
   length example_ranks = 2 \<and>
   length (fst (getTrendingGames example_online 5 (- 1) False example_empty_catalog)) = 1"
proof -
  have h: "(- 1 :: int) \<le> 0" by simp
  have m: "fst (getCachedData 5 (trending_key (- 1)) (Millis CACHE_DURATION_TRENDING) (trending_games example_empty_catalog)) = None"
    by (simp add: getCachedData_def example_empty_catalog_def)
  have r: "most_played example_online = Json (Some example_ranks)"
    by (simp add: example_online_def)
  have l: "length example_ranks = 2"
    by (simp add: example_ranks_def)
  have "length (fst (getTrendingGames example_online 5 (- 1) False example_empty_catalog))
      = (if (- 1 :: int) = 0 then 0 else length example_ranks - nat (- (- 1)))"
    using nonpositive_limit_unguarded [OF h, of False 5 example_empty_catalog example_online, THEN conjunct1] m r
    by simp
  then have "length (fst (getTrendingGames example_online 5 (- 1) False example_empty_catalog)) = 1"
    by (simp add: l)
  with h m r l show ?thesis by (intro conjI)
qed

end
